theory Spec2Isabelle
  imports Complex_Main
begin

section \<open>The jobs screen of the application (Jobs.tsx)\<close>

text \<open>
  The screen is one React function component. Its state is a group of \<open>useState\<close>
  cells; every handler reads the cells of the current render and writes some of them.
  The embedding keeps one record for the cells and turns every handler into a function
  from the record to the updated record. The two effects that leave the component
  (\<open>Alert.alert\<close> and \<open>setTimeout\<close>) are logged in two further fields of the record.
\<close>

subsection \<open>Strings\<close>

text \<open>
  A string is a list of code units; the model covers the code units below 256
  (the type \<open>char\<close>). \<open>trim\<close> removes the white space and line terminators of
  ECMAScript that lie in that range (TAB, LF, VT, FF, CR, SP, NBSP) from both ends;
  \<open>toLowerCase\<close> maps \<open>A\<close>--\<open>Z\<close> and the upper-case letters of Latin-1 to their
  lower-case forms and leaves every other code unit as it is.
\<close>

definition isWhiteSpace :: "char \<Rightarrow> bool" where
  "isWhiteSpace c = (of_char c \<in> {9, 10, 11, 12, 13, 32, 160 :: nat})"

definition trim :: "string \<Rightarrow> string" where
  "trim s = rev (dropWhile isWhiteSpace (rev (dropWhile isWhiteSpace s)))"

definition toLowerCase_char :: "char \<Rightarrow> char" where
  "toLowerCase_char c =
     (let n = (of_char c :: nat)
      in if (65 \<le> n \<and> n \<le> 90) \<or> (192 \<le> n \<and> n \<le> 222 \<and> n \<noteq> 215)
         then char_of (n + 32) else c)"

definition toLowerCase :: "string \<Rightarrow> string" where
  "toLowerCase s = map toLowerCase_char s"

definition startsWith :: "string \<Rightarrow> string \<Rightarrow> bool" where
  "startsWith s t = (take (length t) s = t)"

text \<open>\<open>s.includes(t)\<close>: some position of \<open>s\<close> starts an occurrence of \<open>t\<close>.\<close>

fun includes_str :: "string \<Rightarrow> string \<Rightarrow> bool" where
  "includes_str [] t = (t = [])"
| "includes_str (c # s) t = (startsWith (c # s) t \<or> includes_str s t)"

text \<open>
  The words of the specification, for comparison with \<open>includes_str\<close>:
  \<open>t\<close> is a substring of \<open>s\<close> when \<open>s\<close> is \<open>t\<close> with something before and after it.
\<close>

definition is_substring_of :: "string \<Rightarrow> string \<Rightarrow> bool" where
  "is_substring_of t s = (\<exists>before after. s = before @ t @ after)"

subsection \<open>Regular expressions\<close>

text \<open>
  The two patterns of \<open>validateForm\<close> use character classes, concatenation, \<open>+\<close>,
  \<open>{n}\<close> and \<open>{n,}\<close> between the anchors \<open>^\<close> and \<open>$\<close>, with no flag. For such a
  pattern \<open>RegExp.prototype.test\<close> answers whether the whole input is a word of the
  pattern. \<open>test_anchored\<close> decides that with derivatives: \<open>deriv c r\<close> matches what
  \<open>r\<close> matches after a leading \<open>c\<close>.
\<close>

datatype regex =
    Never
  | Eps
  | Atom "(char \<times> char) list"
  | Alt regex regex
  | Seq regex regex
  | Star regex

text \<open>A character class is a list of inclusive ranges of code units.\<close>

fun in_ranges :: "char \<Rightarrow> (char \<times> char) list \<Rightarrow> bool" where
  "in_ranges c [] = False"
| "in_ranges c ((lo, hi) # rs) =
     ((of_char lo \<le> (of_char c :: nat) \<and> (of_char c :: nat) \<le> of_char hi) \<or> in_ranges c rs)"

primrec nullable :: "regex \<Rightarrow> bool" where
  "nullable Never = False"
| "nullable Eps = True"
| "nullable (Atom rs) = False"
| "nullable (Alt r s) = (nullable r \<or> nullable s)"
| "nullable (Seq r s) = (nullable r \<and> nullable s)"
| "nullable (Star r) = True"

primrec deriv :: "char \<Rightarrow> regex \<Rightarrow> regex" where
  "deriv c Never = Never"
| "deriv c Eps = Never"
| "deriv c (Atom rs) = (if in_ranges c rs then Eps else Never)"
| "deriv c (Alt r s) = Alt (deriv c r) (deriv c s)"
| "deriv c (Seq r s) =
     (if nullable r then Alt (Seq (deriv c r) s) (deriv c s) else Seq (deriv c r) s)"
| "deriv c (Star r) = Seq (deriv c r) (Star r)"

definition test_anchored :: "regex \<Rightarrow> string \<Rightarrow> bool" where
  "test_anchored r s = nullable (foldl (\<lambda>q c. deriv c q) r s)"

text \<open>A literal character, \<open>r{n}\<close>, \<open>r+\<close> and \<open>r{n,}\<close>.\<close>

definition lit :: "char \<Rightarrow> regex" where
  "lit c = Atom [(c, c)]"

primrec exactly :: "nat \<Rightarrow> regex \<Rightarrow> regex" where
  "exactly 0 r = Eps"
| "exactly (Suc n) r = Seq r (exactly n r)"

definition one_or_more :: "regex \<Rightarrow> regex" where
  "one_or_more r = Seq r (Star r)"

definition at_least :: "nat \<Rightarrow> regex \<Rightarrow> regex" where
  "at_least n r = Seq (exactly n r) (Star r)"

text \<open>
  \<^verbatim>\<open>/^[a-zA-Z0-9._%+-]+@[a-zA-Z0-9.-]+\.[a-zA-Z]{2,}$/\<close>, with its three character
  classes named.
\<close>

definition local_chars :: "(char \<times> char) list" where
  "local_chars =
     [(CHR ''a'', CHR ''z''), (CHR ''A'', CHR ''Z''), (CHR ''0'', CHR ''9''),
      (CHR ''.'', CHR ''.''), (CHR ''_'', CHR ''_''), (CHR ''%'', CHR ''%''),
      (CHR ''+'', CHR ''+''), (CHR ''-'', CHR ''-'')]"

definition domain_chars :: "(char \<times> char) list" where
  "domain_chars =
     [(CHR ''a'', CHR ''z''), (CHR ''A'', CHR ''Z''), (CHR ''0'', CHR ''9''),
      (CHR ''.'', CHR ''.''), (CHR ''-'', CHR ''-'')]"

definition tld_chars :: "(char \<times> char) list" where
  "tld_chars = [(CHR ''a'', CHR ''z''), (CHR ''A'', CHR ''Z'')]"

definition emailPattern :: regex where
  "emailPattern =
     Seq (one_or_more (Atom local_chars))
    (Seq (lit CHR ''@'')
    (Seq (one_or_more (Atom domain_chars))
    (Seq (lit CHR ''.'')
         (at_least 2 (Atom tld_chars)))))"

text \<open>\<^verbatim>\<open>/^09\d{9}$/\<close>\<close>

definition contactNumberPattern :: regex where
  "contactNumberPattern =
     Seq (lit CHR ''0'') (Seq (lit CHR ''9'') (exactly 9 (Atom [(CHR ''0'', CHR ''9'')])))"

text \<open>The digits, as the specification lists them.\<close>

definition is_digit :: "char \<Rightarrow> bool" where
  "is_digit c = (c \<in> set ''0123456789'')"

text \<open>
  The words of a pattern, as a set, to state what \<open>test_anchored\<close> decides.
\<close>

inductive_set star :: "string set \<Rightarrow> string set" for A :: "string set" where
  star_empty: "[] \<in> star A"
| star_more: "u \<in> A \<Longrightarrow> v \<in> star A \<Longrightarrow> u @ v \<in> star A"

primrec lang :: "regex \<Rightarrow> string set" where
  "lang Never = {}"
| "lang Eps = {[]}"
| "lang (Atom rs) = {[c] | c. in_ranges c rs}"
| "lang (Alt r s) = lang r \<union> lang s"
| "lang (Seq r s) = {u @ v | u v. u \<in> lang r \<and> v \<in> lang s}"
| "lang (Star r) = star (lang r)"

subsection \<open>The state of the screen\<close>

text \<open>
  \<open>interface Job\<close>. The field \<open>id\<close> is \<open>job_id\<close> here (\<open>id\<close> is the identity
  function of HOL).
\<close>

record Job =
  job_id :: string
  title :: string
  companyName :: string
  mainCategory :: string
  jobType :: string
  workModel :: string
  seniorityLevel :: string

text \<open>The object held by the \<open>errors\<close> cell: one message per form field.\<close>

record FormErrors =
  err_name :: string
  err_email :: string
  err_contactNumber :: string
  err_whyHire :: string

text \<open>The one callback the screen hands to \<open>setTimeout\<close>: \<open>setModalVisible(false)\<close>.\<close>

datatype callback = HideModal

record JobsScreen =
  jobs :: "Job list"
  filteredJobs :: "Job list"
  searchTerm :: string
  savedJobs :: "Job list"
  modalVisible :: bool
  selectedJob :: "Job option"
  name :: string
  email :: string
  contactNumber :: string
  whyHire :: string
  feedbackMessage :: string
  errors :: FormErrors
  isLoading :: bool
  alerts :: "(string \<times> string) list"
  timeouts :: "(nat \<times> callback) list"

text \<open>
  \<open>alerts\<close> lists the calls of \<open>Alert.alert\<close> so far (title, message), oldest first;
  \<open>timeouts\<close> lists the callbacks scheduled with \<open>setTimeout\<close> that have not run yet,
  each with its delay in milliseconds, oldest first.
\<close>

definition no_errors :: FormErrors where
  "no_errors = \<lparr>err_name = [], err_email = [], err_contactNumber = [], err_whyHire = []\<rparr>"

text \<open>The initial values of the \<open>useState\<close> cells.\<close>

definition initial :: JobsScreen where
  "initial =
     \<lparr>jobs = [], filteredJobs = [], searchTerm = [], savedJobs = [],
      modalVisible = False, selectedJob = None,
      name = [], email = [], contactNumber = [], whyHire = [], feedbackMessage = [],
      errors = no_errors, isLoading = False, alerts = [], timeouts = []\<rparr>"

definition Alert_alert :: "string \<Rightarrow> string \<Rightarrow> JobsScreen \<Rightarrow> JobsScreen" where
  "Alert_alert ttl msg st = st\<lparr>alerts := alerts st @ [(ttl, msg)]\<rparr>"

subsection \<open>fetchJobs\<close>

text \<open>
  What the two awaits of \<open>fetchJobs\<close> can give. \<open>fetch\<close> rejects, or \<open>response.json()\<close>
  rejects, or \<open>data\<close> is a JSON value. The code reads \<open>data\<close> only through
  \<open>data && data.jobs\<close>: for \<open>null\<close>, a boolean, a number, a string or an array that
  expression is falsy (\<open>NotAnObject\<close>); for an object it is the member \<open>jobs\<close>,
  \<open>Undefined\<close> when the object has none. A member that is an array holds records of
  the interface \<open>Job\<close>, as the source's annotation \<open>(job: Job)\<close> takes it; \<open>JObject\<close>
  is a member that is an object and no array.
\<close>

datatype jobs_field =
    Undefined
  | JNull
  | JBool bool
  | JNumber real
  | JString string
  | JObject
  | JArray "Job list"

datatype json_data = NotAnObject | DataObject jobs_field

datatype fetch_outcome = FetchRejected | JsonRejected | Parsed json_data

datatype js_error = Rejection | TypeError

fun truthy :: "jobs_field \<Rightarrow> bool" where
  "truthy Undefined = False"
| "truthy JNull = False"
| "truthy (JBool b) = b"
| "truthy (JNumber x) = (x \<noteq> 0)"
| "truthy (JString s) = (s \<noteq> [])"
| "truthy JObject = True"
| "truthy (JArray js) = True"

definition data_jobs :: "json_data \<Rightarrow> jobs_field" where
  "data_jobs d = (case d of NotAnObject \<Rightarrow> Undefined | DataObject v \<Rightarrow> v)"

text \<open>
  \<open>data.jobs.map((job) => ({...job, id: uuid.v4()}))\<close>. The argument \<open>uuid\<close> gives the
  identifiers that \<open>uuid.v4()\<close> returns during this call, in the order of the calls.
\<close>

fun with_ids :: "(nat \<Rightarrow> string) \<Rightarrow> nat \<Rightarrow> Job list \<Rightarrow> Job list" where
  "with_ids uuid k [] = []"
| "with_ids uuid k (job # rest) = job\<lparr>job_id := uuid k\<rparr> # with_ids uuid (Suc k) rest"

text \<open>The part of \<open>fetchJobs\<close> before the first await.\<close>

definition fetchJobs_begin :: "JobsScreen \<Rightarrow> JobsScreen" where
  "fetchJobs_begin st = st\<lparr>isLoading := True\<rparr>"

text \<open>
  The \<open>try\<close> block from the awaits on. It throws before it writes any cell: when
  an await rejects, and when \<open>data.jobs\<close> is truthy and has no method \<open>map\<close>
  (every truthy value but an array).
\<close>

definition fetchJobs_try :: "(nat \<Rightarrow> string) \<Rightarrow> fetch_outcome \<Rightarrow> JobsScreen \<Rightarrow> js_error + JobsScreen" where
  "fetchJobs_try uuid outcome st =
     (case outcome of
        FetchRejected \<Rightarrow> Inl Rejection
      | JsonRejected \<Rightarrow> Inl Rejection
      | Parsed d \<Rightarrow>
          if truthy (data_jobs d) then
            (case data_jobs d of
               JArray raw \<Rightarrow>
                 (let jobsWithIds = with_ids uuid 0 raw
                  in Inr (st\<lparr>jobs := jobsWithIds, filteredJobs := jobsWithIds\<rparr>))
             | _ \<Rightarrow> Inl TypeError)
          else Inr (Alert_alert ''Error'' ''No jobs found in the response.'' st))"

text \<open>The rest of \<open>fetchJobs\<close>: \<open>try\<close>, \<open>catch\<close> and \<open>finally\<close>.\<close>

definition fetchJobs_settle :: "(nat \<Rightarrow> string) \<Rightarrow> fetch_outcome \<Rightarrow> JobsScreen \<Rightarrow> JobsScreen" where
  "fetchJobs_settle uuid outcome st =
     (let st' = (case fetchJobs_try uuid outcome st of
                   Inl e \<Rightarrow> Alert_alert ''Error'' ''Failed to fetch jobs.'' st
                 | Inr st1 \<Rightarrow> st1)
      in st'\<lparr>isLoading := False\<rparr>)"

subsection \<open>Search\<close>

definition filterJobs :: "string \<Rightarrow> JobsScreen \<Rightarrow> JobsScreen" where
  "filterJobs trm st =
     (let filtered =
            filter (\<lambda>job. includes_str (toLowerCase (title job)) (toLowerCase trm) \<or>
                          includes_str (toLowerCase (companyName job)) (toLowerCase trm))
                   (jobs st)
      in st\<lparr>filteredJobs := filtered\<rparr>)"

definition handleSearchChange :: "string \<Rightarrow> JobsScreen \<Rightarrow> JobsScreen" where
  "handleSearchChange txt st = filterJobs txt (st\<lparr>searchTerm := txt\<rparr>)"

subsection \<open>Saved jobs\<close>

text \<open>\<open>Array.prototype.findIndex\<close>: the first index whose element passes, or \<open>-1\<close>.\<close>

fun findIndex :: "('a \<Rightarrow> bool) \<Rightarrow> 'a list \<Rightarrow> int" where
  "findIndex p [] = - 1"
| "findIndex p (x # xs) =
     (if p x then 0 else (let i = findIndex p xs in if i < 0 then - 1 else i + 1))"

text \<open>\<open>xs.splice(i, 1)\<close> on a copy of \<open>xs\<close>, for an index \<open>i\<close> that is not negative.\<close>

definition splice_one :: "nat \<Rightarrow> 'a list \<Rightarrow> 'a list" where
  "splice_one i xs = take i xs @ drop (Suc i) xs"

definition handleSaveJob :: "Job \<Rightarrow> JobsScreen \<Rightarrow> JobsScreen" where
  "handleSaveJob job st =
     (let prevSavedJobs = savedJobs st;
          jobIndex = findIndex (\<lambda>savedJob. job_id savedJob = job_id job) prevSavedJobs
      in if jobIndex \<ge> 0
         then st\<lparr>savedJobs := splice_one (nat jobIndex) prevSavedJobs\<rparr>
         else st\<lparr>savedJobs := prevSavedJobs @ [job]\<rparr>)"

subsection \<open>The application form\<close>

definition handleApplyPress :: "Job \<Rightarrow> JobsScreen \<Rightarrow> JobsScreen" where
  "handleApplyPress job st =
     st\<lparr>selectedJob := Some job, modalVisible := True, feedbackMessage := []\<rparr>"

text \<open>
  \<open>validateForm\<close> returns \<open>formIsValid\<close> and writes \<open>formErrors\<close> to the \<open>errors\<close>
  cell. The four checks run one after the other on the same two local variables.
\<close>

definition validateForm :: "JobsScreen \<Rightarrow> bool \<times> JobsScreen" where
  "validateForm st =
     (let formIsValid = True;
          formErrors = no_errors;
          (formErrors, formIsValid) =
            (if trim (name st) = []
             then (formErrors\<lparr>err_name := ''Name is required.''\<rparr>, False)
             else (formErrors, formIsValid));
          (formErrors, formIsValid) =
            (if trim (email st) = []
             then (formErrors\<lparr>err_email := ''Email is required.''\<rparr>, False)
             else if \<not> test_anchored emailPattern (email st)
             then (formErrors\<lparr>err_email := ''Please enter a valid email address.''\<rparr>, False)
             else (formErrors, formIsValid));
          (formErrors, formIsValid) =
            (if trim (contactNumber st) = []
             then (formErrors\<lparr>err_contactNumber := ''Contact number is required.''\<rparr>, False)
             else if \<not> test_anchored contactNumberPattern (contactNumber st)
             then (formErrors\<lparr>err_contactNumber :=
                     ''Please enter a valid contact number (11 digits starting with 09).''\<rparr>, False)
             else (formErrors, formIsValid));
          (formErrors, formIsValid) =
            (if trim (whyHire st) = []
             then (formErrors\<lparr>err_whyHire := ''This field is required.''\<rparr>, False)
             else (formErrors, formIsValid))
      in (formIsValid, st\<lparr>errors := formErrors\<rparr>))"

definition handleSubmitApplication :: "JobsScreen \<Rightarrow> JobsScreen" where
  "handleSubmitApplication st =
     (case validateForm st of
        (ok, st1) \<Rightarrow>
          if ok
          then st1\<lparr>feedbackMessage := ''Application submitted successfully!'',
                   name := [], email := [], contactNumber := [], whyHire := [],
                   errors := no_errors,
                   timeouts := timeouts st1 @ [(2000, HideModal)]\<rparr>
          else st1)"

definition handleCloseModal :: "JobsScreen \<Rightarrow> JobsScreen" where
  "handleCloseModal st =
     st\<lparr>modalVisible := False,
        name := [], email := [], contactNumber := [], whyHire := [],
        errors := no_errors, feedbackMessage := []\<rparr>"

text \<open>A scheduled callback runs: the oldest pending one, all delays being equal.\<close>

definition run_callback :: "callback \<Rightarrow> JobsScreen \<Rightarrow> JobsScreen" where
  "run_callback cb st = (case cb of HideModal \<Rightarrow> st\<lparr>modalVisible := False\<rparr>)"

definition timeout_fires :: "JobsScreen \<Rightarrow> JobsScreen" where
  "timeout_fires st =
     (case timeouts st of
        [] \<Rightarrow> st
      | (delay, cb) # rest \<Rightarrow> run_callback cb (st\<lparr>timeouts := rest\<rparr>))"

subsection \<open>The screen as a transition system\<close>

text \<open>
  What can happen to a mounted screen, with the handler the JSX binds to it. The
  \<open>useEffect\<close> starts \<open>fetchJobs\<close> once, on mount, so a run starts in \<open>mounted\<close>.
  \<open>enabled\<close> follows the JSX: the list, with the Save and Apply buttons of the jobs
  of \<open>filteredJobs\<close>, is rendered when \<open>isLoading\<close> is false; the form and its
  Submit and Close buttons when the modal is visible and a job is selected; the search
  box always. The fetch settles while it is pending, a timeout fires while one is pending.
\<close>

datatype event =
    FetchSettles "nat \<Rightarrow> string" fetch_outcome
  | SearchChange string
  | PressSave Job
  | PressApply Job
  | ChangeName string
  | ChangeEmail string
  | ChangeContactNumber string
  | ChangeWhyHire string
  | PressSubmit
  | PressClose
  | TimeoutFires

fun enabled :: "event \<Rightarrow> JobsScreen \<Rightarrow> bool" where
  "enabled (FetchSettles uuid outcome) st = isLoading st"
| "enabled (SearchChange txt) st = True"
| "enabled (PressSave job) st = (\<not> isLoading st \<and> job \<in> set (filteredJobs st))"
| "enabled (PressApply job) st = (\<not> isLoading st \<and> job \<in> set (filteredJobs st))"
| "enabled TimeoutFires st = (timeouts st \<noteq> [])"
| "enabled e st = (modalVisible st \<and> selectedJob st \<noteq> None)"

fun step :: "event \<Rightarrow> JobsScreen \<Rightarrow> JobsScreen" where
  "step (FetchSettles uuid outcome) st = fetchJobs_settle uuid outcome st"
| "step (SearchChange txt) st = handleSearchChange txt st"
| "step (PressSave job) st = handleSaveJob job st"
| "step (PressApply job) st = handleApplyPress job st"
| "step (ChangeName txt) st = st\<lparr>name := txt\<rparr>"
| "step (ChangeEmail txt) st = st\<lparr>email := txt\<rparr>"
| "step (ChangeContactNumber txt) st = st\<lparr>contactNumber := txt\<rparr>"
| "step (ChangeWhyHire txt) st = st\<lparr>whyHire := txt\<rparr>"
| "step PressSubmit st = handleSubmitApplication st"
| "step PressClose st = handleCloseModal st"
| "step TimeoutFires st = timeout_fires st"

fun run :: "event list \<Rightarrow> JobsScreen \<Rightarrow> JobsScreen option" where
  "run [] st = Some st"
| "run (e # es) st = (if enabled e st then run es (step e st) else None)"

definition mounted :: JobsScreen where
  "mounted = fetchJobs_begin initial"

subsection \<open>The validation rules, in the words of the specification\<close>

text \<open>
  A required field passes when it holds a character that is not white space. An email
  passes when it is a local part, \<open>@\<close>, a domain, a dot and a top-level part of two
  letters or more, each drawn from its character class. A contact number passes when it
  is \<open>09\<close> followed by nine digits.
\<close>

definition required_rule :: "string \<Rightarrow> bool" where
  "required_rule s = list_ex (\<lambda>c. \<not> isWhiteSpace c) s"

definition email_rule :: "string \<Rightarrow> bool" where
  "email_rule s =
     (\<exists>local_part domain tld.
        s = local_part @ ''@'' @ domain @ ''.'' @ tld \<and>
        local_part \<noteq> [] \<and> list_all (\<lambda>c. in_ranges c local_chars) local_part \<and>
        domain \<noteq> [] \<and> list_all (\<lambda>c. in_ranges c domain_chars) domain \<and>
        2 \<le> length tld \<and> list_all (\<lambda>c. in_ranges c tld_chars) tld)"

definition contactNumber_rule :: "string \<Rightarrow> bool" where
  "contactNumber_rule s = (\<exists>ds. s = ''09'' @ ds \<and> length ds = 9 \<and> list_all is_digit ds)"

subsection \<open>Sample data\<close>

text \<open>
  A payload record as the server sends it (no identifier yet), and identifiers
  \<open>u\<close>, \<open>uu\<close>, \<open>uuu\<close>, ... for \<open>uuid.v4()\<close>.
\<close>

definition sample_job :: "string \<Rightarrow> string \<Rightarrow> Job" where
  "sample_job t c =
     \<lparr>job_id = [], title = t, companyName = c, mainCategory = ''IT'',
      jobType = ''Full time'', workModel = ''Remote'', seniorityLevel = ''Junior''\<rparr>"

definition sample_uuid :: "nat \<Rightarrow> string" where
  "sample_uuid k = replicate (Suc k) CHR ''u''"

text \<open>The events that type into a field of the form.\<close>

fun is_typing :: "event \<Rightarrow> bool" where
  "is_typing (ChangeName txt) = True"
| "is_typing (ChangeEmail txt) = True"
| "is_typing (ChangeContactNumber txt) = True"
| "is_typing (ChangeWhyHire txt) = True"
| "is_typing e = False"

section \<open>Auxiliary facts\<close>

subsection \<open>What \<open>test_anchored\<close> decides\<close>

lemma star_Cons_iff:
  "(c # w \<in> star A) = (\<exists>u v. w = u @ v \<and> c # u \<in> A \<and> v \<in> star A)"
proof
  assume "c # w \<in> star A"
  then have "\<forall>w'. c # w' = c # w \<longrightarrow> (\<exists>u v. w' = u @ v \<and> c # u \<in> A \<and> v \<in> star A)"
  proof (induction "c # w" arbitrary: w rule: star.induct)
    case (star_more u v)
    show ?case
    proof (cases u)
      case Nil
      with star_more show ?thesis by simp
    next
      case (Cons a u')
      with star_more.hyps show ?thesis by auto
    qed
  qed
  then show "\<exists>u v. w = u @ v \<and> c # u \<in> A \<and> v \<in> star A" by simp
next
  assume "\<exists>u v. w = u @ v \<and> c # u \<in> A \<and> v \<in> star A"
  then obtain u v where "w = u @ v" "c # u \<in> A" "v \<in> star A" by blast
  then show "c # w \<in> star A" using star_more [of "c # u" A v] by simp
qed

lemma nullable_lang: "nullable r = ([] \<in> lang r)"
  by (induction r) (auto intro: star_empty)

lemma conc_Cons_iff:
  "(c # w \<in> {u @ v | u v. u \<in> A \<and> v \<in> B}) =
     ((\<exists>u v. w = u @ v \<and> c # u \<in> A \<and> v \<in> B) \<or> ([] \<in> A \<and> c # w \<in> B))"
proof
  assume "c # w \<in> {u @ v | u v. u \<in> A \<and> v \<in> B}"
  then obtain u v where uv: "c # w = u @ v" "u \<in> A" "v \<in> B" by blast
  show "(\<exists>u v. w = u @ v \<and> c # u \<in> A \<and> v \<in> B) \<or> ([] \<in> A \<and> c # w \<in> B)"
  proof (cases u)
    case Nil
    with uv show ?thesis by simp
  next
    case (Cons a u')
    with uv have "w = u' @ v" "c # u' \<in> A" by simp_all
    with uv(3) show ?thesis by blast
  qed
next
  assume "(\<exists>u v. w = u @ v \<and> c # u \<in> A \<and> v \<in> B) \<or> ([] \<in> A \<and> c # w \<in> B)"
  then show "c # w \<in> {u @ v | u v. u \<in> A \<and> v \<in> B}"
  proof
    assume "\<exists>u v. w = u @ v \<and> c # u \<in> A \<and> v \<in> B"
    then obtain u v where "w = u @ v" "c # u \<in> A" "v \<in> B" by blast
    then have "c # w = (c # u) @ v \<and> c # u \<in> A \<and> v \<in> B" by simp
    then show ?thesis by blast
  next
    assume "[] \<in> A \<and> c # w \<in> B"
    then have "c # w = [] @ (c # w) \<and> [] \<in> A \<and> c # w \<in> B" by simp
    then show ?thesis by blast
  qed
qed

lemma deriv_lang: "(w \<in> lang (deriv c r)) = (c # w \<in> lang r)"
proof (induction r arbitrary: w)
  case (Seq r s)
  have "(w \<in> lang (deriv c (Seq r s))) =
          ((\<exists>u v. w = u @ v \<and> c # u \<in> lang r \<and> v \<in> lang s) \<or> ([] \<in> lang r \<and> c # w \<in> lang s))"
    using Seq by (auto simp: nullable_lang)
  then show ?case by (simp only: lang.simps conc_Cons_iff)
next
  case (Star r)
  then show ?case by (auto simp: star_Cons_iff)
qed auto

lemma foldl_deriv_lang: "(w \<in> lang (foldl (\<lambda>q c. deriv c q) r s)) = (s @ w \<in> lang r)"
  by (induction s arbitrary: r) (simp_all add: deriv_lang)

lemma test_anchored_lang: "test_anchored r s = (s \<in> lang r)"
  using foldl_deriv_lang [of "[]" r s] by (simp add: test_anchored_def nullable_lang)

subsection \<open>The words of the repetitions of a character class\<close>

lemma in_lang_Atom: "(w \<in> lang (Atom rs)) = (\<exists>c. w = [c] \<and> in_ranges c rs)"
  by simp

lemma in_lang_Seq: "(w \<in> lang (Seq r s)) = (\<exists>u v. w = u @ v \<and> u \<in> lang r \<and> v \<in> lang s)"
  by simp

lemma in_lang_Atom_Seq:
  "(w \<in> lang (Seq (Atom rs) r)) = (\<exists>c v. w = c # v \<and> in_ranges c rs \<and> v \<in> lang r)"
proof
  assume "w \<in> lang (Seq (Atom rs) r)"
  then obtain u v where uv: "w = u @ v" "u \<in> lang (Atom rs)" "v \<in> lang r"
    unfolding in_lang_Seq by blast
  from uv(2) obtain c where "u = [c]" "in_ranges c rs" unfolding in_lang_Atom by blast
  with uv have "w = c # v \<and> in_ranges c rs \<and> v \<in> lang r" by simp
  then show "\<exists>c v. w = c # v \<and> in_ranges c rs \<and> v \<in> lang r" by blast
next
  assume "\<exists>c v. w = c # v \<and> in_ranges c rs \<and> v \<in> lang r"
  then obtain c v where cv: "w = c # v" "in_ranges c rs" "v \<in> lang r" by blast
  then have "[c] \<in> lang (Atom rs)" unfolding in_lang_Atom by blast
  with cv have "w = [c] @ v \<and> [c] \<in> lang (Atom rs) \<and> v \<in> lang r" by simp
  then show "w \<in> lang (Seq (Atom rs) r)" unfolding in_lang_Seq by blast
qed

lemma in_star_Atom: "(w \<in> lang (Star (Atom rs))) = list_all (\<lambda>c. in_ranges c rs) w"
proof
  assume "w \<in> lang (Star (Atom rs))"
  then have "w \<in> star (lang (Atom rs))" by simp
  then show "list_all (\<lambda>c. in_ranges c rs) w"
  proof (induction rule: star.induct)
    case star_empty
    show ?case by simp
  next
    case (star_more u v)
    from star_more.hyps(1) obtain c where "u = [c]" "in_ranges c rs"
      unfolding in_lang_Atom by blast
    with star_more.IH show ?case by simp
  qed
next
  assume "list_all (\<lambda>c. in_ranges c rs) w"
  then have "w \<in> star (lang (Atom rs))"
  proof (induction w)
    case Nil
    show ?case by (rule star_empty)
  next
    case (Cons c w)
    then have "in_ranges c rs" "w \<in> star (lang (Atom rs))" by simp_all
    then have "[c] \<in> lang (Atom rs)" "w \<in> star (lang (Atom rs))"
      unfolding in_lang_Atom by blast+
    then have "[c] @ w \<in> star (lang (Atom rs))" by (rule star_more)
    then show ?case by simp
  qed
  then show "w \<in> lang (Star (Atom rs))" by simp
qed

lemma in_lang_exactly_Atom:
  "(w \<in> lang (exactly n (Atom rs))) = (length w = n \<and> list_all (\<lambda>c. in_ranges c rs) w)"
proof (induction n arbitrary: w)
  case 0
  show ?case by auto
next
  case (Suc n)
  have "(w \<in> lang (exactly (Suc n) (Atom rs))) =
          (\<exists>c v. w = c # v \<and> in_ranges c rs \<and> v \<in> lang (exactly n (Atom rs)))"
    unfolding exactly.simps by (rule in_lang_Atom_Seq)
  also have "\<dots> = (\<exists>c v. w = c # v \<and> in_ranges c rs \<and> length v = n \<and> list_all (\<lambda>c. in_ranges c rs) v)"
    unfolding Suc.IH ..
  also have "\<dots> = (length w = Suc n \<and> list_all (\<lambda>c. in_ranges c rs) w)"
    by (cases w) auto
  finally show ?case .
qed

lemma in_lang_one_or_more_Atom:
  "(w \<in> lang (one_or_more (Atom rs))) = (w \<noteq> [] \<and> list_all (\<lambda>c. in_ranges c rs) w)"
proof -
  have "(w \<in> lang (one_or_more (Atom rs))) =
          (\<exists>c v. w = c # v \<and> in_ranges c rs \<and> v \<in> lang (Star (Atom rs)))"
    unfolding one_or_more_def by (rule in_lang_Atom_Seq)
  also have "\<dots> = (\<exists>c v. w = c # v \<and> in_ranges c rs \<and> list_all (\<lambda>c. in_ranges c rs) v)"
    unfolding in_star_Atom ..
  also have "\<dots> = (w \<noteq> [] \<and> list_all (\<lambda>c. in_ranges c rs) w)"
    by (cases w) auto
  finally show ?thesis .
qed

lemma in_lang_at_least_Atom:
  "(w \<in> lang (at_least n (Atom rs))) = (n \<le> length w \<and> list_all (\<lambda>c. in_ranges c rs) w)"
proof
  assume "w \<in> lang (at_least n (Atom rs))"
  then obtain u v where uv: "w = u @ v" "u \<in> lang (exactly n (Atom rs))"
      "v \<in> lang (Star (Atom rs))"
    unfolding at_least_def in_lang_Seq by blast
  then have "length u = n" "list_all (\<lambda>c. in_ranges c rs) u" "list_all (\<lambda>c. in_ranges c rs) v"
    unfolding in_lang_exactly_Atom in_star_Atom by simp_all
  with uv(1) show "n \<le> length w \<and> list_all (\<lambda>c. in_ranges c rs) w" by simp
next
  assume w: "n \<le> length w \<and> list_all (\<lambda>c. in_ranges c rs) w"
  then have "list_all (\<lambda>c. in_ranges c rs) (take n w @ drop n w)" by simp
  then have "list_all (\<lambda>c. in_ranges c rs) (take n w)" "list_all (\<lambda>c. in_ranges c rs) (drop n w)"
    unfolding list_all_append by simp_all
  with w have "take n w \<in> lang (exactly n (Atom rs))" "drop n w \<in> lang (Star (Atom rs))"
    unfolding in_lang_exactly_Atom in_star_Atom by simp_all
  then have "w = take n w @ drop n w \<and> take n w \<in> lang (exactly n (Atom rs)) \<and>
      drop n w \<in> lang (Star (Atom rs))"
    by simp
  then show "w \<in> lang (at_least n (Atom rs))" unfolding at_least_def in_lang_Seq by blast
qed

lemma in_ranges_single: "in_ranges x [(c, c)] = (x = c)"
proof -
  have "in_ranges x [(c, c)] = ((of_char x :: nat) = of_char c)" by auto
  then show ?thesis by (simp only: of_char_eq_iff)
qed

lemma in_lang_lit_Seq: "(w \<in> lang (Seq (lit c) r)) = (\<exists>v. w = c # v \<and> v \<in> lang r)"
  unfolding lit_def in_lang_Atom_Seq in_ranges_single by blast

subsection \<open>The contact number pattern\<close>

lemma digits_upt: "map char_of [48..<58::nat] = ''0123456789''"
  by code_simp

lemma digit_range: "in_ranges c [(CHR ''0'', CHR ''9'')] = is_digit c"
proof
  assume "in_ranges c [(CHR ''0'', CHR ''9'')]"
  then have "48 \<le> (of_char c :: nat) \<and> (of_char c :: nat) \<le> 57" by simp
  then have "48 \<le> (of_char c :: nat) \<and> (of_char c :: nat) < 58" by arith
  then have "(of_char c :: nat) \<in> set [48..<58]" by (simp only: set_upt atLeastLessThan_iff)
  then have "char_of (of_char c :: nat) \<in> char_of ` set [48..<58::nat]" by (rule imageI)
  then have "c \<in> set (map char_of [48..<58::nat])" by (simp only: char_of_char set_map)
  then show "is_digit c" by (simp only: is_digit_def digits_upt)
next
  assume "is_digit c"
  then have "c = CHR ''0'' \<or> c = CHR ''1'' \<or> c = CHR ''2'' \<or> c = CHR ''3'' \<or> c = CHR ''4'' \<or>
      c = CHR ''5'' \<or> c = CHR ''6'' \<or> c = CHR ''7'' \<or> c = CHR ''8'' \<or> c = CHR ''9''"
    unfolding is_digit_def by simp
  then show "in_ranges c [(CHR ''0'', CHR ''9'')]"
    by (elim disjE) simp_all
qed

lemma in_lang_contactNumberPattern:
  "(s \<in> lang contactNumberPattern) = (\<exists>ds. s = ''09'' @ ds \<and> length ds = 9 \<and> list_all is_digit ds)"
proof -
  have "(s \<in> lang contactNumberPattern) =
          (\<exists>v. s = CHR ''0'' # v \<and> (\<exists>ds. v = CHR ''9'' # ds \<and> length ds = 9 \<and>
               list_all (\<lambda>c. in_ranges c [(CHR ''0'', CHR ''9'')]) ds))"
    unfolding contactNumberPattern_def in_lang_lit_Seq in_lang_exactly_Atom ..
  also have "\<dots> = (\<exists>ds. s = ''09'' @ ds \<and> length ds = 9 \<and> list_all is_digit ds)"
    unfolding digit_range by auto
  finally show ?thesis .
qed

subsection \<open>Blank strings and the result of \<open>validateForm\<close>\<close>

lemma dropWhile_Nil_iff: "(dropWhile p xs = []) = list_all p xs"
  by (induction xs) simp_all

lemma trim_Nil_iff: "(trim s = []) = list_all isWhiteSpace s"
proof -
  have "(trim s = []) = list_all isWhiteSpace (rev (dropWhile isWhiteSpace s))"
    unfolding trim_def by (simp only: rev_is_Nil_conv dropWhile_Nil_iff)
  also have "\<dots> = list_all isWhiteSpace (dropWhile isWhiteSpace s)"
    by (simp only: list_all_iff set_rev)
  also have "\<dots> = list_all isWhiteSpace s"
    by (induction s) simp_all
  finally show ?thesis .
qed

lemma trim_Cons_not_Nil: "\<not> isWhiteSpace c \<Longrightarrow> trim (c # s) \<noteq> []"
  by (simp add: trim_Nil_iff)

lemma zero_not_space: "\<not> isWhiteSpace CHR ''0''"
  by (simp add: isWhiteSpace_def)

lemma contact_match_not_blank: "test_anchored contactNumberPattern s \<Longrightarrow> trim s \<noteq> []"
proof -
  assume "test_anchored contactNumberPattern s"
  then obtain ds where "s = ''09'' @ ds"
    unfolding test_anchored_lang in_lang_contactNumberPattern by blast
  then have "s = CHR ''0'' # (CHR ''9'' # ds)" by simp
  then show ?thesis using trim_Cons_not_Nil [OF zero_not_space] by simp
qed

lemma validateForm_result:
  "validateForm st =
     (trim (name st) \<noteq> [] \<and>
      (trim (email st) \<noteq> [] \<and> test_anchored emailPattern (email st)) \<and>
      (trim (contactNumber st) \<noteq> [] \<and> test_anchored contactNumberPattern (contactNumber st)) \<and>
      trim (whyHire st) \<noteq> [],
      st\<lparr>errors :=
          \<lparr>err_name = (if trim (name st) = [] then ''Name is required.'' else []),
           err_email =
             (if trim (email st) = [] then ''Email is required.''
              else if \<not> test_anchored emailPattern (email st)
              then ''Please enter a valid email address.'' else []),
           err_contactNumber =
             (if trim (contactNumber st) = [] then ''Contact number is required.''
              else if \<not> test_anchored contactNumberPattern (contactNumber st)
              then ''Please enter a valid contact number (11 digits starting with 09).''
              else []),
           err_whyHire = (if trim (whyHire st) = [] then ''This field is required.'' else [])\<rparr>\<rparr>)"
  unfolding validateForm_def Let_def no_errors_def by (simp split: if_splits)

subsection \<open>Substrings, \<open>findIndex\<close> and the save toggle\<close>

lemma startsWith_iff: "startsWith s t = (\<exists>after. s = t @ after)"
proof
  assume "startsWith s t"
  then have "s = t @ drop (length t) s"
    unfolding startsWith_def using append_take_drop_id [of "length t" s] by simp
  then show "\<exists>after. s = t @ after" ..
next
  assume "\<exists>after. s = t @ after"
  then show "startsWith s t" unfolding startsWith_def by auto
qed

lemma includes_str_iff: "includes_str s t = is_substring_of t s"
proof (induction s)
  case Nil
  show ?case by (simp add: is_substring_of_def)
next
  case (Cons c s)
  show ?case
  proof
    assume "includes_str (c # s) t"
    then have "startsWith (c # s) t \<or> is_substring_of t s" using Cons by simp
    then show "is_substring_of t (c # s)"
    proof
      assume "startsWith (c # s) t"
      then obtain after where "c # s = [] @ t @ after" unfolding startsWith_iff by auto
      then show ?thesis unfolding is_substring_of_def by blast
    next
      assume "is_substring_of t s"
      then obtain before after where "s = before @ t @ after"
        unfolding is_substring_of_def by blast
      then have "c # s = (c # before) @ t @ after" by simp
      then show ?thesis unfolding is_substring_of_def by blast
    qed
  next
    assume "is_substring_of t (c # s)"
    then obtain before after where ba: "c # s = before @ t @ after"
      unfolding is_substring_of_def by blast
    show "includes_str (c # s) t"
    proof (cases before)
      case Nil
      with ba have "startsWith (c # s) t" unfolding startsWith_iff by auto
      then show ?thesis by simp
    next
      case (Cons b before')
      with ba have "s = before' @ t @ after" by simp
      then have "is_substring_of t s" unfolding is_substring_of_def by blast
      then show ?thesis using Cons.IH by simp
    qed
  qed
qed

lemma includes_str_Nil: "includes_str s []"
  by (cases s) (simp_all add: startsWith_def)

lemma findIndex_absent: "\<not> list_ex p xs \<Longrightarrow> findIndex p xs = - 1"
  by (induction xs) simp_all

lemma findIndex_present:
  "list_ex p xs \<Longrightarrow>
     \<exists>pre e post. xs = pre @ e # post \<and> p e \<and> \<not> list_ex p pre \<and> findIndex p xs = int (length pre)"
proof (induction xs)
  case Nil
  then show ?case by simp
next
  case (Cons x xs)
  show ?case
  proof (cases "p x")
    case True
    then have "x # xs = [] @ x # xs \<and> p x \<and> \<not> list_ex p [] \<and> findIndex p (x # xs) = int (length ([] :: 'a list))"
      by simp
    then show ?thesis by blast
  next
    case False
    with Cons.prems have "list_ex p xs" by simp
    from Cons.IH [OF this] obtain pre e post where
      IH: "xs = pre @ e # post" "p e" "\<not> list_ex p pre" "findIndex p xs = int (length pre)"
      by blast
    with False have "x # xs = (x # pre) @ e # post \<and> p e \<and> \<not> list_ex p (x # pre) \<and>
        findIndex p (x # xs) = int (length (x # pre))"
      by (simp add: Let_def)
    then show ?thesis by blast
  qed
qed

lemma findIndex_nonneg_iff: "(findIndex p xs \<ge> 0) = list_ex p xs"
proof (cases "list_ex p xs")
  case True
  from findIndex_present [OF this] show ?thesis using True by auto
next
  case False
  then show ?thesis by (simp add: findIndex_absent)
qed

lemma splice_one_middle: "splice_one (length pre) (pre @ e # post) = pre @ post"
  by (simp add: splice_one_def)

lemma handleSaveJob_absent:
  "\<not> list_ex (\<lambda>s. job_id s = job_id job) (savedJobs st) \<Longrightarrow>
     handleSaveJob job st = st\<lparr>savedJobs := savedJobs st @ [job]\<rparr>"
  by (simp add: handleSaveJob_def Let_def findIndex_absent)

lemma handleSaveJob_present:
  "list_ex (\<lambda>s. job_id s = job_id job) (savedJobs st) \<Longrightarrow>
     \<exists>pre e post. savedJobs st = pre @ e # post \<and> job_id e = job_id job \<and>
        \<not> list_ex (\<lambda>s. job_id s = job_id job) pre \<and>
        handleSaveJob job st = st\<lparr>savedJobs := pre @ post\<rparr>"
proof -
  assume "list_ex (\<lambda>s. job_id s = job_id job) (savedJobs st)"
  from findIndex_present [OF this] obtain pre e post where
    f: "savedJobs st = pre @ e # post" "job_id e = job_id job"
       "\<not> list_ex (\<lambda>s. job_id s = job_id job) pre"
       "findIndex (\<lambda>s. job_id s = job_id job) (savedJobs st) = int (length pre)"
    by blast
  then have "handleSaveJob job st = st\<lparr>savedJobs := pre @ post\<rparr>"
    by (simp add: handleSaveJob_def Let_def splice_one_def)
  with f show ?thesis by blast
qed

lemma handleSaveJob_distinct:
  "distinct (map job_id (savedJobs st)) \<Longrightarrow> distinct (map job_id (savedJobs (handleSaveJob job st)))"
proof (cases "list_ex (\<lambda>s. job_id s = job_id job) (savedJobs st)")
  case True
  assume d: "distinct (map job_id (savedJobs st))"
  from handleSaveJob_present [OF True] obtain pre e post where
    "savedJobs st = pre @ e # post" "handleSaveJob job st = st\<lparr>savedJobs := pre @ post\<rparr>"
    by blast
  with d show ?thesis by auto
next
  case False
  assume d: "distinct (map job_id (savedJobs st))"
  from False have "job_id job \<notin> set (map job_id (savedJobs st))"
    by (auto simp: list_ex_iff)
  with d show ?thesis by (simp add: handleSaveJob_absent [OF False])
qed

subsection \<open>The email pattern\<close>

lemma local_chars_not_space: "in_ranges c local_chars \<Longrightarrow> \<not> isWhiteSpace c"
  unfolding local_chars_def isWhiteSpace_def by simp arith

lemma in_lang_emailPattern:
  "(s \<in> lang emailPattern) =
     (\<exists>local_part domain tld.
        s = local_part @ ''@'' @ domain @ ''.'' @ tld \<and>
        local_part \<noteq> [] \<and> list_all (\<lambda>c. in_ranges c local_chars) local_part \<and>
        domain \<noteq> [] \<and> list_all (\<lambda>c. in_ranges c domain_chars) domain \<and>
        2 \<le> length tld \<and> list_all (\<lambda>c. in_ranges c tld_chars) tld)"
proof -
  let ?L = "\<lambda>u. u \<noteq> [] \<and> list_all (\<lambda>c. in_ranges c local_chars) u"
  let ?D = "\<lambda>u. u \<noteq> [] \<and> list_all (\<lambda>c. in_ranges c domain_chars) u"
  let ?T = "\<lambda>u. 2 \<le> length u \<and> list_all (\<lambda>c. in_ranges c tld_chars) u"
  have tail: "\<And>w. (w \<in> lang (Seq (lit CHR ''.'') (at_least 2 (Atom tld_chars)))) =
                 (\<exists>t. w = CHR ''.'' # t \<and> ?T t)"
    unfolding in_lang_lit_Seq in_lang_at_least_Atom ..
  have dom: "\<And>w. (w \<in> lang (Seq (one_or_more (Atom domain_chars))
                 (Seq (lit CHR ''.'') (at_least 2 (Atom tld_chars))))) =
               (\<exists>d r. w = d @ r \<and> ?D d \<and> (\<exists>t. r = CHR ''.'' # t \<and> ?T t))"
    unfolding in_lang_Seq [of _ "one_or_more (Atom domain_chars)"] in_lang_one_or_more_Atom tail ..
  have at: "\<And>w. (w \<in> lang (Seq (lit CHR ''@'') (Seq (one_or_more (Atom domain_chars))
                 (Seq (lit CHR ''.'') (at_least 2 (Atom tld_chars)))))) =
               (\<exists>v. w = CHR ''@'' # v \<and> (\<exists>d r. v = d @ r \<and> ?D d \<and> (\<exists>t. r = CHR ''.'' # t \<and> ?T t)))"
    unfolding in_lang_lit_Seq dom ..
  have all: "(s \<in> lang emailPattern) =
               (\<exists>l w. s = l @ w \<and> ?L l \<and>
                  (\<exists>v. w = CHR ''@'' # v \<and> (\<exists>d r. v = d @ r \<and> ?D d \<and> (\<exists>t. r = CHR ''.'' # t \<and> ?T t))))"
    unfolding emailPattern_def in_lang_Seq [of _ "one_or_more (Atom local_chars)"]
      in_lang_one_or_more_Atom at ..
  show ?thesis
  proof
    assume "s \<in> lang emailPattern"
    then obtain l w v d r t where
      "s = l @ w" "?L l" "w = CHR ''@'' # v" "v = d @ r" "?D d" "r = CHR ''.'' # t" "?T t"
      unfolding all by blast
    then have "s = l @ ''@'' @ d @ ''.'' @ t \<and> ?L l \<and> ?D d \<and> ?T t" by simp
    then show "\<exists>local_part domain tld.
        s = local_part @ ''@'' @ domain @ ''.'' @ tld \<and>
        local_part \<noteq> [] \<and> list_all (\<lambda>c. in_ranges c local_chars) local_part \<and>
        domain \<noteq> [] \<and> list_all (\<lambda>c. in_ranges c domain_chars) domain \<and>
        2 \<le> length tld \<and> list_all (\<lambda>c. in_ranges c tld_chars) tld"
      by blast
  next
    assume "\<exists>local_part domain tld.
        s = local_part @ ''@'' @ domain @ ''.'' @ tld \<and>
        local_part \<noteq> [] \<and> list_all (\<lambda>c. in_ranges c local_chars) local_part \<and>
        domain \<noteq> [] \<and> list_all (\<lambda>c. in_ranges c domain_chars) domain \<and>
        2 \<le> length tld \<and> list_all (\<lambda>c. in_ranges c tld_chars) tld"
    then obtain l d t where ldt: "s = l @ ''@'' @ d @ ''.'' @ t" "?L l" "?D d" "?T t" by blast
    then have "s = l @ (CHR ''@'' # (d @ (CHR ''.'' # t))) \<and> ?L l \<and>
        CHR ''@'' # (d @ (CHR ''.'' # t)) = CHR ''@'' # (d @ (CHR ''.'' # t)) \<and>
        d @ (CHR ''.'' # t) = d @ (CHR ''.'' # t) \<and> ?D d \<and>
        CHR ''.'' # t = CHR ''.'' # t \<and> ?T t"
      by simp
    then show "s \<in> lang emailPattern" unfolding all by blast
  qed
qed

lemma email_match_not_blank: "test_anchored emailPattern s \<Longrightarrow> trim s \<noteq> []"
proof -
  assume "test_anchored emailPattern s"
  then obtain l r where lr: "s = l @ r" "l \<noteq> []" "list_all (\<lambda>c. in_ranges c local_chars) l"
    unfolding test_anchored_lang in_lang_emailPattern by blast
  then obtain c l' where "l = c # l'" by (cases l) simp_all
  with lr have "s = c # (l' @ r)" "in_ranges c local_chars" by simp_all
  then show ?thesis using trim_Cons_not_Nil [OF local_chars_not_space] by simp
qed

subsection \<open>The rules of the specification and the checks of \<open>validateForm\<close>\<close>

lemma required_rule_iff: "required_rule s = (trim s \<noteq> [])"
  unfolding required_rule_def trim_Nil_iff by (induction s) simp_all

lemma email_rule_iff: "email_rule s = (trim s \<noteq> [] \<and> test_anchored emailPattern s)"
  using email_match_not_blank [of s]
  unfolding email_rule_def test_anchored_lang in_lang_emailPattern [symmetric] by blast

lemma contactNumber_rule_iff:
  "contactNumber_rule s = (trim s \<noteq> [] \<and> test_anchored contactNumberPattern s)"
  using contact_match_not_blank [of s]
  unfolding contactNumber_rule_def test_anchored_lang in_lang_contactNumberPattern [symmetric]
  by blast

lemma validateForm_rules:
  "validateForm st =
     (required_rule (name st) \<and> email_rule (email st) \<and>
      contactNumber_rule (contactNumber st) \<and> required_rule (whyHire st),
      st\<lparr>errors :=
          \<lparr>err_name = (if required_rule (name st) then [] else ''Name is required.''),
           err_email =
             (if email_rule (email st) then []
              else if required_rule (email st) then ''Please enter a valid email address.''
              else ''Email is required.''),
           err_contactNumber =
             (if contactNumber_rule (contactNumber st) then []
              else if required_rule (contactNumber st)
              then ''Please enter a valid contact number (11 digits starting with 09).''
              else ''Contact number is required.''),
           err_whyHire = (if required_rule (whyHire st) then [] else ''This field is required.'')\<rparr>\<rparr>)"
  unfolding validateForm_result required_rule_iff email_rule_iff contactNumber_rule_iff
  by simp

lemma contact_samples:
  "test_anchored contactNumberPattern ''09171234567''"
  "\<not> test_anchored contactNumberPattern ''9171234567''"
  "\<not> test_anchored contactNumberPattern ''091712345''"
  "\<not> test_anchored contactNumberPattern ''08171234567''"
  by code_simp+

lemma email_samples:
  "test_anchored emailPattern ''a@b.co''"
  "\<not> test_anchored emailPattern ''a@b''"
  "\<not> test_anchored emailPattern ''a.com''"
  by code_simp+

lemma trim_samples:
  "trim ''09171234567'' \<noteq> []" "trim ''9171234567'' \<noteq> []" "trim ''091712345'' \<noteq> []"
  "trim ''08171234567'' \<noteq> []" "trim ''a@b.co'' \<noteq> []" "trim ''a@b'' \<noteq> []"
  "trim ''a.com'' \<noteq> []" "trim [] = []"
  by (simp_all add: trim_Nil_iff isWhiteSpace_def)


lemma sample_rules:
  "required_rule ''Ann''" "required_rule ''Because''" "\<not> required_rule ''  ''"
  "email_rule ''a@b.co''" "\<not> email_rule ''a@b''"
  "contactNumber_rule ''09171234567''" "\<not> contactNumber_rule ''0917''"
proof -
  have "\<not> test_anchored contactNumberPattern ''0917''" by code_simp
  then show "\<not> contactNumber_rule ''0917''" by (simp add: contactNumber_rule_iff)
qed (simp_all add: required_rule_def isWhiteSpace_def email_rule_iff contactNumber_rule_iff
       email_samples contact_samples trim_samples)

subsection \<open>The save toggle applied twice, and on a list without repeated identifiers\<close>

lemma handleSaveJob_twice_absent:
  "\<not> list_ex (\<lambda>s. job_id s = job_id job) (savedJobs st) \<Longrightarrow>
     handleSaveJob job (handleSaveJob job st) = st"
proof -
  assume a: "\<not> list_ex (\<lambda>s. job_id s = job_id job) (savedJobs st)"
  let ?st1 = "st\<lparr>savedJobs := savedJobs st @ [job]\<rparr>"
  have 1: "handleSaveJob job st = ?st1" using a by (rule handleSaveJob_absent)
  have "list_ex (\<lambda>s. job_id s = job_id job) (savedJobs ?st1)" by simp
  from handleSaveJob_present [OF this] obtain pre e post where
    p: "savedJobs ?st1 = pre @ e # post" "job_id e = job_id job"
       "\<not> list_ex (\<lambda>s. job_id s = job_id job) pre"
       "handleSaveJob job ?st1 = ?st1\<lparr>savedJobs := pre @ post\<rparr>"
    by blast
  from p(1) have eq: "savedJobs st @ [job] = pre @ e # post" by simp
  have "post = []"
  proof (rule ccontr)
    assume "post \<noteq> []"
    then obtain post' l where "post = post' @ [l]" by (metis rev_exhaust)
    with eq have "savedJobs st = pre @ e # post'" by simp
    with p(2) a show False by simp
  qed
  with eq have "pre = savedJobs st" by simp
  with p(4) \<open>post = []\<close> 1 show ?thesis by simp
qed

lemma handleSaveJob_twice_present:
  "distinct (map job_id (savedJobs st)) \<Longrightarrow>
   list_ex (\<lambda>s. job_id s = job_id job) (savedJobs st) \<Longrightarrow>
     \<exists>pre e post. savedJobs st = pre @ e # post \<and> job_id e = job_id job \<and>
        handleSaveJob job (handleSaveJob job st) = st\<lparr>savedJobs := pre @ post @ [job]\<rparr>"
proof -
  assume d: "distinct (map job_id (savedJobs st))"
    and present: "list_ex (\<lambda>s. job_id s = job_id job) (savedJobs st)"
  from handleSaveJob_present [OF present] obtain pre e post where
    p: "savedJobs st = pre @ e # post" "job_id e = job_id job"
       "handleSaveJob job st = st\<lparr>savedJobs := pre @ post\<rparr>"
    by blast
  from d p(1,2) have "job_id job \<notin> set (map job_id (pre @ post))" by auto
  then have "\<not> list_ex (\<lambda>s. job_id s = job_id job) (savedJobs (st\<lparr>savedJobs := pre @ post\<rparr>))"
    by (auto simp: list_ex_iff image_iff)
  from handleSaveJob_absent [OF this]
  have "handleSaveJob job (handleSaveJob job st) = st\<lparr>savedJobs := pre @ post @ [job]\<rparr>"
    using p(3) by simp
  with p(1,2) show ?thesis by blast
qed

lemma filter_out_unique:
  "distinct (map f (pre @ e # post)) \<Longrightarrow> filter (\<lambda>s. f s \<noteq> f e) (pre @ e # post) = pre @ post"
proof -
  assume d: "distinct (map f (pre @ e # post))"
  then have "\<forall>s \<in> set pre. f s \<noteq> f e" "\<forall>s \<in> set post. f s \<noteq> f e"
    by (auto simp: image_iff)
  then have "filter (\<lambda>s. f s \<noteq> f e) pre = pre" "filter (\<lambda>s. f s \<noteq> f e) post = post"
    by (simp_all add: filter_id_conv)
  then show ?thesis by simp
qed

lemma handleSaveJob_on_set:
  "distinct (map job_id (savedJobs st)) \<Longrightarrow>
     savedJobs (handleSaveJob job st) =
       (if job_id job \<in> set (map job_id (savedJobs st))
        then filter (\<lambda>s. job_id s \<noteq> job_id job) (savedJobs st)
        else savedJobs st @ [job])"
proof (cases "list_ex (\<lambda>s. job_id s = job_id job) (savedJobs st)")
  case True
  assume d: "distinct (map job_id (savedJobs st))"
  from handleSaveJob_present [OF True] obtain pre e post where
    p: "savedJobs st = pre @ e # post" "job_id e = job_id job"
       "handleSaveJob job st = st\<lparr>savedJobs := pre @ post\<rparr>"
    by blast
  from d p(1) have "filter (\<lambda>s. job_id s \<noteq> job_id e) (pre @ e # post) = pre @ post"
    using filter_out_unique [of job_id pre e post] by simp
  with p show ?thesis by simp
next
  case False
  then have "job_id job \<notin> set (map job_id (savedJobs st))"
    by (auto simp: list_ex_iff)
  then show ?thesis using handleSaveJob_absent [OF False] by simp
qed

subsection \<open>The outcomes of \<open>fetchJobs\<close>, and what the steps leave of \<open>savedJobs\<close>\<close>

lemma fetchJobs_settle_cases:
  "fetchJobs_settle uuid outcome st =
     (case outcome of
        FetchRejected \<Rightarrow>
          st\<lparr>alerts := alerts st @ [(''Error'', ''Failed to fetch jobs.'')], isLoading := False\<rparr>
      | JsonRejected \<Rightarrow>
          st\<lparr>alerts := alerts st @ [(''Error'', ''Failed to fetch jobs.'')], isLoading := False\<rparr>
      | Parsed d \<Rightarrow>
          if \<not> truthy (data_jobs d)
          then st\<lparr>alerts := alerts st @ [(''Error'', ''No jobs found in the response.'')],
                  isLoading := False\<rparr>
          else (case data_jobs d of
                  JArray raw \<Rightarrow>
                    st\<lparr>jobs := with_ids uuid 0 raw, filteredJobs := with_ids uuid 0 raw,
                       isLoading := False\<rparr>
                | _ \<Rightarrow>
                    st\<lparr>alerts := alerts st @ [(''Error'', ''Failed to fetch jobs.'')],
                       isLoading := False\<rparr>))"
  unfolding fetchJobs_settle_def fetchJobs_try_def Alert_alert_def Let_def
  by (simp split: fetch_outcome.splits jobs_field.splits)

lemma savedJobs_fetchJobs_settle: "savedJobs (fetchJobs_settle uuid outcome st) = savedJobs st"
  unfolding fetchJobs_settle_cases by (simp split: fetch_outcome.splits jobs_field.splits)

lemma savedJobs_handleSubmitApplication: "savedJobs (handleSubmitApplication st) = savedJobs st"
  unfolding handleSubmitApplication_def validateForm_result by simp

lemma savedJobs_timeout_fires: "savedJobs (timeout_fires st) = savedJobs st"
  unfolding timeout_fires_def run_callback_def by (simp split: list.splits callback.splits)

lemma step_keeps_ids_distinct:
  "distinct (map job_id (savedJobs st)) \<Longrightarrow> distinct (map job_id (savedJobs (step e st)))"
proof (cases e)
  case (PressSave job)
  assume "distinct (map job_id (savedJobs st))"
  then show ?thesis unfolding PressSave step.simps by (rule handleSaveJob_distinct)
qed (simp_all add: savedJobs_fetchJobs_settle savedJobs_handleSubmitApplication
       savedJobs_timeout_fires handleSearchChange_def filterJobs_def handleApplyPress_def
       handleCloseModal_def)

lemma run_keeps_ids_distinct:
  "distinct (map job_id (savedJobs st)) \<Longrightarrow> run es st = Some st' \<Longrightarrow>
     distinct (map job_id (savedJobs st'))"
proof (induction es arbitrary: st)
  case Nil
  then show ?case by simp
next
  case (Cons e es)
  from Cons.prems(2) have "enabled e st" "run es (step e st) = Some st'"
    by (simp_all split: if_splits)
  with Cons.IH [OF step_keeps_ids_distinct [OF Cons.prems(1)]] show ?case by simp
qed

lemma toggles_keep_ids_distinct:
  "distinct (map job_id (savedJobs st)) \<Longrightarrow>
     distinct (map job_id (savedJobs (foldl (\<lambda>s job. handleSaveJob job s) st toggles)))"
proof (induction toggles arbitrary: st)
  case Nil
  then show ?case by simp
next
  case (Cons job toggles)
  from Cons.IH [OF handleSaveJob_distinct [OF Cons.prems]] show ?case by simp
qed

lemma initial_ids_distinct:
  "distinct (map job_id (savedJobs initial))" "distinct (map job_id (savedJobs mounted))"
  by (simp_all add: initial_def mounted_def fetchJobs_begin_def)

subsection \<open>Runs\<close>

lemma lower_samples:
  "toLowerCase ''Developer'' = ''developer''" "toLowerCase ''Acme'' = ''acme''"
  "toLowerCase ''x'' = ''x''"
  by code_simp+

lemma run_append:
  "run (es @ fs) st = (case run es st of None \<Rightarrow> None | Some st' \<Rightarrow> run fs st')"
  by (induction es arbitrary: st) simp_all

lemma typing_runs:
  "list_all is_typing es \<Longrightarrow> modalVisible st \<Longrightarrow> selectedJob st \<noteq> None \<Longrightarrow>
     \<exists>st'. run es st = Some st' \<and> modalVisible st' \<and> selectedJob st' = selectedJob st \<and>
           isLoading st' = isLoading st \<and> filteredJobs st' = filteredJobs st"
proof (induction es arbitrary: st)
  case Nil
  then show ?case by simp
next
  case (Cons e es)
  from Cons.prems(1) have e: "is_typing e" and es: "list_all is_typing es" by simp_all
  from e Cons.prems(2,3) have en: "enabled e st" by (cases e) simp_all
  from e Cons.prems(2,3) have keep: "modalVisible (step e st)" "selectedJob (step e st) \<noteq> None"
      "selectedJob (step e st) = selectedJob st" "isLoading (step e st) = isLoading st"
      "filteredJobs (step e st) = filteredJobs st"
    by (cases e; simp)+
  from Cons.IH [OF es keep(1,2)] obtain st' where
    "run es (step e st) = Some st'" "modalVisible st'"
    "selectedJob st' = selectedJob (step e st)" "isLoading st' = isLoading (step e st)"
    "filteredJobs st' = filteredJobs (step e st)"
    by blast
  with en keep show ?case by simp
qed

section \<open>The claims\<close>

text \<open>
  Claim C1. For every state and every search term, \<open>filterJobs\<close> (and \<open>handleSearchChange\<close>,
  which calls it with the typed text) stores in \<open>filteredJobs\<close> exactly the jobs of the
  full list, in their order, whose lower-cased title or lower-cased company name has the
  lower-cased term as a substring. The empty term gives the full list.
\<close>

theorem filterJobs_by_substring:
  "filteredJobs (filterJobs t st) =
     filter (\<lambda>j. is_substring_of (toLowerCase t) (toLowerCase (title j)) \<or>
                 is_substring_of (toLowerCase t) (toLowerCase (companyName j))) (jobs st)
   \<and> filteredJobs (handleSearchChange t st) =
     filter (\<lambda>j. is_substring_of (toLowerCase t) (toLowerCase (title j)) \<or>
                 is_substring_of (toLowerCase t) (toLowerCase (companyName j))) (jobs st)
   \<and> filteredJobs (filterJobs [] st) = jobs st
   \<and> filteredJobs (handleSearchChange [] st) = jobs st"
  by (simp add: filterJobs_def handleSearchChange_def includes_str_iff [symmetric]
        toLowerCase_def includes_str_Nil)

text \<open>
  Claim C2. When an entry of the saved list has the identifier of the job, the toggle
  removes the first such entry and nothing else; when none has it, the toggle appends the
  job's record, the list grows by one, and a second toggle of the same job gives back the
  state it started from. On a saved list without repeated identifiers (the saved set of the
  specification: membership is by identifier) two toggles of the same job give back the
  same set of identifiers and the same number of entries.
\<close>

theorem handleSaveJob_toggles:
  "(list_ex (\<lambda>s. job_id s = job_id job) (savedJobs st) \<longrightarrow>
      (\<exists>pre e post. savedJobs st = pre @ e # post \<and> job_id e = job_id job \<and>
         \<not> list_ex (\<lambda>s. job_id s = job_id job) pre \<and>
         handleSaveJob job st = st\<lparr>savedJobs := pre @ post\<rparr>))
   \<and> (\<not> list_ex (\<lambda>s. job_id s = job_id job) (savedJobs st) \<longrightarrow>
        handleSaveJob job st = st\<lparr>savedJobs := savedJobs st @ [job]\<rparr> \<and>
        length (savedJobs (handleSaveJob job st)) = Suc (length (savedJobs st)) \<and>
        handleSaveJob job (handleSaveJob job st) = st)
   \<and> (distinct (map job_id (savedJobs st)) \<longrightarrow>
        set (map job_id (savedJobs (handleSaveJob job (handleSaveJob job st)))) =
          set (map job_id (savedJobs st)) \<and>
        length (savedJobs (handleSaveJob job (handleSaveJob job st))) = length (savedJobs st))"
proof (intro conjI impI)
  assume "list_ex (\<lambda>s. job_id s = job_id job) (savedJobs st)"
  then show "\<exists>pre e post. savedJobs st = pre @ e # post \<and> job_id e = job_id job \<and>
         \<not> list_ex (\<lambda>s. job_id s = job_id job) pre \<and>
         handleSaveJob job st = st\<lparr>savedJobs := pre @ post\<rparr>"
    by (rule handleSaveJob_present)
next
  assume a: "\<not> list_ex (\<lambda>s. job_id s = job_id job) (savedJobs st)"
  then show "handleSaveJob job st = st\<lparr>savedJobs := savedJobs st @ [job]\<rparr>"
    by (rule handleSaveJob_absent)
  then show "length (savedJobs (handleSaveJob job st)) = Suc (length (savedJobs st))"
    by simp
  from a show "handleSaveJob job (handleSaveJob job st) = st"
    by (rule handleSaveJob_twice_absent)
next
  assume d: "distinct (map job_id (savedJobs st))"
  have "set (map job_id (savedJobs (handleSaveJob job (handleSaveJob job st)))) =
          set (map job_id (savedJobs st)) \<and>
        length (savedJobs (handleSaveJob job (handleSaveJob job st))) = length (savedJobs st)"
  proof (cases "list_ex (\<lambda>s. job_id s = job_id job) (savedJobs st)")
    case True
    from handleSaveJob_twice_present [OF d True] obtain pre e post where
      "savedJobs st = pre @ e # post" "job_id e = job_id job"
      "handleSaveJob job (handleSaveJob job st) = st\<lparr>savedJobs := pre @ post @ [job]\<rparr>"
      by blast
    then show ?thesis by auto
  next
    case False
    then show ?thesis by (simp add: handleSaveJob_twice_absent)
  qed
  then show "set (map job_id (savedJobs (handleSaveJob job (handleSaveJob job st)))) =
          set (map job_id (savedJobs st))"
    and "length (savedJobs (handleSaveJob job (handleSaveJob job st))) = length (savedJobs st)"
    by simp_all
qed

text \<open>
  The toggle on a saved list of two jobs: of a job that is saved, and of one that is not.
\<close>

theorem handleSaveJob_toggles_witness:
  "list_ex (\<lambda>s. job_id s = ''uu'')
     (savedJobs (initial\<lparr>savedJobs := [(sample_job ''Developer'' ''Acme'')\<lparr>job_id := ''u''\<rparr>,
                                       (sample_job ''Designer'' ''Globex'')\<lparr>job_id := ''uu''\<rparr>]\<rparr>))
   \<and> distinct (map job_id
        (savedJobs (initial\<lparr>savedJobs := [(sample_job ''Developer'' ''Acme'')\<lparr>job_id := ''u''\<rparr>,
                                          (sample_job ''Designer'' ''Globex'')\<lparr>job_id := ''uu''\<rparr>]\<rparr>)))
   \<and> savedJobs (handleSaveJob ((sample_job ''Designer'' ''Globex'')\<lparr>job_id := ''uu''\<rparr>)
        (initial\<lparr>savedJobs := [(sample_job ''Developer'' ''Acme'')\<lparr>job_id := ''u''\<rparr>,
                                (sample_job ''Designer'' ''Globex'')\<lparr>job_id := ''uu''\<rparr>]\<rparr>)) =
       [(sample_job ''Developer'' ''Acme'')\<lparr>job_id := ''u''\<rparr>]
   \<and> set (map job_id (savedJobs
        (handleSaveJob ((sample_job ''Designer'' ''Globex'')\<lparr>job_id := ''uu''\<rparr>)
          (handleSaveJob ((sample_job ''Designer'' ''Globex'')\<lparr>job_id := ''uu''\<rparr>)
            (initial\<lparr>savedJobs := [(sample_job ''Developer'' ''Acme'')\<lparr>job_id := ''u''\<rparr>,
                                    (sample_job ''Designer'' ''Globex'')\<lparr>job_id := ''uu''\<rparr>]\<rparr>))))) =
       {''u'', ''uu''}
   \<and> handleSaveJob ((sample_job ''Tester'' ''Initech'')\<lparr>job_id := ''uuu''\<rparr>)
        (handleSaveJob ((sample_job ''Tester'' ''Initech'')\<lparr>job_id := ''uuu''\<rparr>)
          (initial\<lparr>savedJobs := [(sample_job ''Developer'' ''Acme'')\<lparr>job_id := ''u''\<rparr>,
                                  (sample_job ''Designer'' ''Globex'')\<lparr>job_id := ''uu''\<rparr>]\<rparr>)) =
       initial\<lparr>savedJobs := [(sample_job ''Developer'' ''Acme'')\<lparr>job_id := ''u''\<rparr>,
                              (sample_job ''Designer'' ''Globex'')\<lparr>job_id := ''uu''\<rparr>]\<rparr>"
proof -
  let ?A = "(sample_job ''Developer'' ''Acme'')\<lparr>job_id := ''u''\<rparr>"
  let ?B = "(sample_job ''Designer'' ''Globex'')\<lparr>job_id := ''uu''\<rparr>"
  let ?C = "(sample_job ''Tester'' ''Initech'')\<lparr>job_id := ''uuu''\<rparr>"
  let ?S = "initial\<lparr>savedJobs := [?A, ?B]\<rparr>"
  have present: "list_ex (\<lambda>s. job_id s = job_id ?B) (savedJobs ?S)" by simp
  have absent: "\<not> list_ex (\<lambda>s. job_id s = job_id ?C) (savedJobs ?S)" by simp
  have ids: "distinct (map job_id (savedJobs ?S))" by simp
  from handleSaveJob_toggles [of ?B ?S] present obtain pre e post where
    p: "savedJobs ?S = pre @ e # post" "job_id e = job_id ?B"
       "\<not> list_ex (\<lambda>s. job_id s = job_id ?B) pre"
       "handleSaveJob ?B ?S = ?S\<lparr>savedJobs := pre @ post\<rparr>"
    by blast
  from p(1) have "[?A, ?B] = pre @ e # post" by simp
  with p(2,3) have "pre = [?A] \<and> post = []"
    by (cases pre; cases "tl pre"; cases post) auto
  with p(4) have removed: "savedJobs (handleSaveJob ?B ?S) = [?A]" by simp
  from handleSaveJob_toggles [of ?B ?S] ids
  have twice: "set (map job_id (savedJobs (handleSaveJob ?B (handleSaveJob ?B ?S)))) =
      set (map job_id (savedJobs ?S))"
    by blast
  have "set (map job_id (savedJobs ?S)) = {''u'', ''uu''}" by simp
  with twice have twice': "set (map job_id (savedJobs (handleSaveJob ?B (handleSaveJob ?B ?S)))) =
      {''u'', ''uu''}"
    by (rule trans)
  from handleSaveJob_toggles [of ?C ?S] absent
  have restored: "handleSaveJob ?C (handleSaveJob ?C ?S) = ?S" by blast
  from present have present': "list_ex (\<lambda>s. job_id s = ''uu'') (savedJobs ?S)" by simp
  from present' ids removed twice' restored show ?thesis by (intro conjI)
qed

text \<open>
  Claim C3, as the code has it. When \<open>fetchJobs\<close> settles the loading flag is false,
  whatever the outcome. A payload whose \<open>jobs\<close> member is absent or falsy adds the alert
  ``No jobs found in the response.'' and changes nothing else. A rejected \<open>fetch\<close>, a
  rejected \<open>json()\<close>, and a payload whose \<open>jobs\<close> member is truthy but no array all add
  the alert ``Failed to fetch jobs.'' and change nothing else: the malformed member makes
  \<open>data.jobs.map\<close> throw, and the \<open>catch\<close> block reports it as it reports a failed transport.
  A payload whose \<open>jobs\<close> member is an array replaces both lists and raises no alert. The
  two alerts differ.
\<close>

theorem fetchJobs_settle_outcomes:
  "isLoading (fetchJobs_settle uuid outcome st) = False
   \<and> (outcome = Parsed d \<and> \<not> truthy (data_jobs d) \<longrightarrow>
        fetchJobs_settle uuid outcome st =
          st\<lparr>alerts := alerts st @ [(''Error'', ''No jobs found in the response.'')],
             isLoading := False\<rparr>)
   \<and> (outcome = FetchRejected \<or> outcome = JsonRejected \<or>
       (outcome = Parsed d \<and> truthy (data_jobs d) \<and> (\<forall>raw. data_jobs d \<noteq> JArray raw)) \<longrightarrow>
        fetchJobs_settle uuid outcome st =
          st\<lparr>alerts := alerts st @ [(''Error'', ''Failed to fetch jobs.'')],
             isLoading := False\<rparr>)
   \<and> (outcome = Parsed d \<and> data_jobs d = JArray raw \<longrightarrow>
        fetchJobs_settle uuid outcome st =
          st\<lparr>jobs := with_ids uuid 0 raw, filteredJobs := with_ids uuid 0 raw,
             isLoading := False\<rparr>)
   \<and> (''Error'', ''No jobs found in the response.'') \<noteq> (''Error'', ''Failed to fetch jobs.'')"
proof (intro conjI impI)
  show "isLoading (fetchJobs_settle uuid outcome st) = False"
    unfolding fetchJobs_settle_cases by (simp split: fetch_outcome.splits jobs_field.splits)
next
  assume "outcome = Parsed d \<and> \<not> truthy (data_jobs d)"
  then show "fetchJobs_settle uuid outcome st =
          st\<lparr>alerts := alerts st @ [(''Error'', ''No jobs found in the response.'')],
             isLoading := False\<rparr>"
    unfolding fetchJobs_settle_cases by simp
next
  assume "outcome = FetchRejected \<or> outcome = JsonRejected \<or>
       (outcome = Parsed d \<and> truthy (data_jobs d) \<and> (\<forall>raw. data_jobs d \<noteq> JArray raw))"
  then show "fetchJobs_settle uuid outcome st =
          st\<lparr>alerts := alerts st @ [(''Error'', ''Failed to fetch jobs.'')],
             isLoading := False\<rparr>"
    unfolding fetchJobs_settle_cases by (auto split: jobs_field.splits)
next
  assume "outcome = Parsed d \<and> data_jobs d = JArray raw"
  then show "fetchJobs_settle uuid outcome st =
          st\<lparr>jobs := with_ids uuid 0 raw, filteredJobs := with_ids uuid 0 raw,
             isLoading := False\<rparr>"
    unfolding fetchJobs_settle_cases by simp
next
  show "(''Error'', ''No jobs found in the response.'') \<noteq> (''Error'', ''Failed to fetch jobs.'')"
    by simp
qed

text \<open>One payload or failure of each kind, settling the fetch of a freshly mounted screen.\<close>

theorem fetchJobs_settle_outcomes_witness:
  "fetchJobs_settle sample_uuid (Parsed (DataObject Undefined)) mounted =
     initial\<lparr>alerts := [(''Error'', ''No jobs found in the response.'')]\<rparr>
   \<and> fetchJobs_settle sample_uuid (Parsed (DataObject JObject)) mounted =
     initial\<lparr>alerts := [(''Error'', ''Failed to fetch jobs.'')]\<rparr>
   \<and> fetchJobs_settle sample_uuid FetchRejected mounted =
     initial\<lparr>alerts := [(''Error'', ''Failed to fetch jobs.'')]\<rparr>
   \<and> fetchJobs_settle sample_uuid
       (Parsed (DataObject (JArray [sample_job ''Developer'' ''Acme'']))) mounted =
     initial\<lparr>jobs := [(sample_job ''Developer'' ''Acme'')\<lparr>job_id := ''u''\<rparr>],
             filteredJobs := [(sample_job ''Developer'' ''Acme'')\<lparr>job_id := ''u''\<rparr>]\<rparr>"
proof -
  have m: "\<And>a. mounted\<lparr>alerts := alerts mounted @ [a], isLoading := False\<rparr> = initial\<lparr>alerts := [a]\<rparr>"
    by (simp add: mounted_def initial_def fetchJobs_begin_def)
  have 1: "Parsed (DataObject Undefined) = Parsed (DataObject Undefined) \<and>
      \<not> truthy (data_jobs (DataObject Undefined))"
    by (simp add: data_jobs_def)
  have 2: "Parsed (DataObject JObject) = FetchRejected \<or>
      Parsed (DataObject JObject) = JsonRejected \<or>
      (Parsed (DataObject JObject) = Parsed (DataObject JObject) \<and>
       truthy (data_jobs (DataObject JObject)) \<and> (\<forall>raw. data_jobs (DataObject JObject) \<noteq> JArray raw))"
    by (simp add: data_jobs_def)
  have 3: "FetchRejected = FetchRejected \<or> FetchRejected = JsonRejected \<or>
      (FetchRejected = Parsed d \<and> truthy (data_jobs d) \<and> (\<forall>raw. data_jobs d \<noteq> JArray raw))"
    for d
    by simp
  have 4: "Parsed (DataObject (JArray [sample_job ''Developer'' ''Acme''])) =
        Parsed (DataObject (JArray [sample_job ''Developer'' ''Acme''])) \<and>
      data_jobs (DataObject (JArray [sample_job ''Developer'' ''Acme''])) =
        JArray [sample_job ''Developer'' ''Acme'']"
    by (simp add: data_jobs_def)
  from fetchJobs_settle_outcomes [of sample_uuid "Parsed (DataObject Undefined)" mounted
      "DataObject Undefined"] 1
  have a: "fetchJobs_settle sample_uuid (Parsed (DataObject Undefined)) mounted =
      initial\<lparr>alerts := [(''Error'', ''No jobs found in the response.'')]\<rparr>"
    unfolding m [symmetric] by blast
  from fetchJobs_settle_outcomes [of sample_uuid "Parsed (DataObject JObject)" mounted
      "DataObject JObject"] 2
  have b: "fetchJobs_settle sample_uuid (Parsed (DataObject JObject)) mounted =
      initial\<lparr>alerts := [(''Error'', ''Failed to fetch jobs.'')]\<rparr>"
    unfolding m [symmetric] by blast
  from fetchJobs_settle_outcomes [of sample_uuid FetchRejected mounted] 3
  have c: "fetchJobs_settle sample_uuid FetchRejected mounted =
      initial\<lparr>alerts := [(''Error'', ''Failed to fetch jobs.'')]\<rparr>"
    unfolding m [symmetric] by blast
  from fetchJobs_settle_outcomes [of sample_uuid
      "Parsed (DataObject (JArray [sample_job ''Developer'' ''Acme'']))" mounted
      "DataObject (JArray [sample_job ''Developer'' ''Acme''])" "[sample_job ''Developer'' ''Acme'']"] 4
  have "fetchJobs_settle sample_uuid
       (Parsed (DataObject (JArray [sample_job ''Developer'' ''Acme'']))) mounted =
     mounted\<lparr>jobs := with_ids sample_uuid 0 [sample_job ''Developer'' ''Acme''],
             filteredJobs := with_ids sample_uuid 0 [sample_job ''Developer'' ''Acme''],
             isLoading := False\<rparr>"
    by blast
  then have d: "fetchJobs_settle sample_uuid
       (Parsed (DataObject (JArray [sample_job ''Developer'' ''Acme'']))) mounted =
     initial\<lparr>jobs := [(sample_job ''Developer'' ''Acme'')\<lparr>job_id := ''u''\<rparr>],
             filteredJobs := [(sample_job ''Developer'' ''Acme'')\<lparr>job_id := ''u''\<rparr>]\<rparr>"
    by (simp add: mounted_def initial_def fetchJobs_begin_def sample_uuid_def)
  from a b c d show ?thesis by (intro conjI)
qed

text \<open>
  The claim as stated asks for an error of its own for a response without a well-formed
  \<open>jobs\<close> member, distinct from the one of a failed transport. For the payload
  \<^verbatim>\<open>{"jobs": {}}\<close> the alert is the one of a failed transport.
\<close>

theorem malformed_jobs_gives_the_transport_alert:
  "alerts (fetchJobs_settle sample_uuid (Parsed (DataObject JObject)) mounted) =
     [(''Error'', ''Failed to fetch jobs.'')]
   \<and> alerts (fetchJobs_settle sample_uuid FetchRejected mounted) =
     [(''Error'', ''Failed to fetch jobs.'')]"
  unfolding fetchJobs_settle_cases
  by (simp add: data_jobs_def mounted_def initial_def fetchJobs_begin_def)

text \<open>
  Claim C4 does not hold of the code. The screen is mounted, the user types \<open>x\<close> into the
  search box while the fetch is pending, and the fetch settles with one job that does not
  match \<open>x\<close>. \<open>fetchJobs\<close> stores the whole list in \<open>filteredJobs\<close>; the search term is still
  \<open>x\<close>, and the filter for \<open>x\<close> over the full list is empty.
\<close>

theorem search_term_ignored_when_fetch_settles:
  "(case run [SearchChange ''x'',
              FetchSettles sample_uuid
                (Parsed (DataObject (JArray [sample_job ''Developer'' ''Acme''])))] mounted of
      None \<Rightarrow> False
    | Some st \<Rightarrow>
        searchTerm st = ''x'' \<and>
        filteredJobs st = [(sample_job ''Developer'' ''Acme'')\<lparr>job_id := ''u''\<rparr>] \<and>
        filteredJobs (filterJobs (searchTerm st) st) = [])"
  by (simp add: mounted_def initial_def fetchJobs_begin_def handleSearchChange_def
        filterJobs_def fetchJobs_settle_cases data_jobs_def sample_uuid_def sample_job_def
        lower_samples startsWith_def)

text \<open>
  Claim C5, as the code has it. Pressing Apply selects the job, shows the modal and empties
  the feedback message; it leaves the four fields and the error messages as they are.
  Closing the modal empties the four fields, the error messages and the feedback message.
  Hence, from any state that shows the list: Apply on job A, any typing into the form,
  Close, and Apply on job B is a run of the screen, and it ends with an empty form for
  job B.
\<close>

theorem apply_after_close_shows_empty_form:
  "name (handleApplyPress job st) = name st \<and> email (handleApplyPress job st) = email st
   \<and> contactNumber (handleApplyPress job st) = contactNumber st
   \<and> whyHire (handleApplyPress job st) = whyHire st
   \<and> errors (handleApplyPress job st) = errors st
   \<and> feedbackMessage (handleApplyPress job st) = []
   \<and> selectedJob (handleApplyPress job st) = Some job \<and> modalVisible (handleApplyPress job st)
   \<and> handleCloseModal st =
       st\<lparr>modalVisible := False, name := [], email := [], contactNumber := [], whyHire := [],
          errors := no_errors, feedbackMessage := []\<rparr>
   \<and> (\<not> isLoading st \<and> jobA \<in> set (filteredJobs st) \<and> jobB \<in> set (filteredJobs st) \<and>
       list_all is_typing typing \<longrightarrow>
        (\<exists>st'. run (PressApply jobA # typing @ [PressClose, PressApply jobB]) st = Some st' \<and>
           name st' = [] \<and> email st' = [] \<and> contactNumber st' = [] \<and> whyHire st' = [] \<and>
           errors st' = no_errors \<and> feedbackMessage st' = [] \<and>
           modalVisible st' \<and> selectedJob st' = Some jobB))"
proof (intro conjI impI)
  assume a: "\<not> isLoading st \<and> jobA \<in> set (filteredJobs st) \<and> jobB \<in> set (filteredJobs st) \<and>
       list_all is_typing typing"
  let ?st1 = "handleApplyPress jobA st"
  have st1: "modalVisible ?st1" "selectedJob ?st1 \<noteq> None" "isLoading ?st1 = isLoading st"
      "filteredJobs ?st1 = filteredJobs st"
    by (simp_all add: handleApplyPress_def)
  from a have "list_all is_typing typing" by simp
  from typing_runs [OF this st1(1,2)] obtain st2 where
    st2: "run typing ?st1 = Some st2" "modalVisible st2" "selectedJob st2 = selectedJob ?st1"
      "isLoading st2 = isLoading ?st1" "filteredJobs st2 = filteredJobs ?st1"
    by blast
  let ?st3 = "handleCloseModal st2"
  let ?st4 = "handleApplyPress jobB ?st3"
  have st3: "isLoading ?st3 = isLoading st2" "filteredJobs ?st3 = filteredJobs st2"
    by (simp_all add: handleCloseModal_def)
  from a st1 st2 st3 have "run (PressApply jobA # typing @ [PressClose, PressApply jobB]) st = Some ?st4"
    by (simp add: run_append)
  moreover have "name ?st4 = [] \<and> email ?st4 = [] \<and> contactNumber ?st4 = [] \<and> whyHire ?st4 = [] \<and>
      errors ?st4 = no_errors \<and> feedbackMessage ?st4 = [] \<and> modalVisible ?st4 \<and>
      selectedJob ?st4 = Some jobB"
    by (simp add: handleApplyPress_def handleCloseModal_def)
  ultimately show "\<exists>st'. run (PressApply jobA # typing @ [PressClose, PressApply jobB]) st = Some st' \<and>
           name st' = [] \<and> email st' = [] \<and> contactNumber st' = [] \<and> whyHire st' = [] \<and>
           errors st' = no_errors \<and> feedbackMessage st' = [] \<and>
           modalVisible st' \<and> selectedJob st' = Some jobB"
    by blast
qed (simp_all add: handleApplyPress_def handleCloseModal_def)

text \<open>The run for two fetched jobs, with a name and the start of an email typed for the first.\<close>

theorem apply_after_close_shows_empty_form_witness:
  "\<not> isLoading (initial\<lparr>jobs := [(sample_job ''Developer'' ''Acme'')\<lparr>job_id := ''u''\<rparr>,
                                (sample_job ''Designer'' ''Globex'')\<lparr>job_id := ''uu''\<rparr>],
                       filteredJobs := [(sample_job ''Developer'' ''Acme'')\<lparr>job_id := ''u''\<rparr>,
                                        (sample_job ''Designer'' ''Globex'')\<lparr>job_id := ''uu''\<rparr>]\<rparr>)
   \<and> list_all is_typing [ChangeName ''Ann'', ChangeEmail ''a@'']
   \<and> map_option (\<lambda>st. (name st, email st, contactNumber st, whyHire st, errors st,
                         feedbackMessage st, modalVisible st, selectedJob st))
        (run (PressApply ((sample_job ''Developer'' ''Acme'')\<lparr>job_id := ''u''\<rparr>) #
               [ChangeName ''Ann'', ChangeEmail ''a@''] @
               [PressClose, PressApply ((sample_job ''Designer'' ''Globex'')\<lparr>job_id := ''uu''\<rparr>)])
           (initial\<lparr>jobs := [(sample_job ''Developer'' ''Acme'')\<lparr>job_id := ''u''\<rparr>,
                              (sample_job ''Designer'' ''Globex'')\<lparr>job_id := ''uu''\<rparr>],
                     filteredJobs := [(sample_job ''Developer'' ''Acme'')\<lparr>job_id := ''u''\<rparr>,
                                      (sample_job ''Designer'' ''Globex'')\<lparr>job_id := ''uu''\<rparr>]\<rparr>)) =
       Some ([], [], [], [], no_errors, [], True,
             Some ((sample_job ''Designer'' ''Globex'')\<lparr>job_id := ''uu''\<rparr>))"
proof -
  let ?A = "(sample_job ''Developer'' ''Acme'')\<lparr>job_id := ''u''\<rparr>"
  let ?B = "(sample_job ''Designer'' ''Globex'')\<lparr>job_id := ''uu''\<rparr>"
  let ?S = "initial\<lparr>jobs := [?A, ?B], filteredJobs := [?A, ?B]\<rparr>"
  let ?typing = "[ChangeName ''Ann'', ChangeEmail ''a@'']"
  have idle: "\<not> isLoading ?S" by (simp add: initial_def)
  have typing: "list_all is_typing ?typing" by simp
  have "\<not> isLoading ?S \<and> ?A \<in> set (filteredJobs ?S) \<and> ?B \<in> set (filteredJobs ?S) \<and>
      list_all is_typing ?typing"
    using idle by simp
  with apply_after_close_shows_empty_form [of _ ?S ?A ?B ?typing] obtain st' where
    r: "run (PressApply ?A # ?typing @ [PressClose, PressApply ?B]) ?S = Some st'"
    and f: "name st' = []" "email st' = []" "contactNumber st' = []" "whyHire st' = []"
       "errors st' = no_errors" "feedbackMessage st' = []" "modalVisible st'"
       "selectedJob st' = Some ?B"
    by blast
  have shown: "map_option (\<lambda>st. (name st, email st, contactNumber st, whyHire st, errors st,
                         feedbackMessage st, modalVisible st, selectedJob st))
        (run (PressApply ?A # ?typing @ [PressClose, PressApply ?B]) ?S) =
       Some ([], [], [], [], no_errors, [], True, Some ?B)"
    unfolding r using f by simp
  from idle typing shown show ?thesis by (intro conjI)
qed

text \<open>
  The claim as stated has Apply reset the fields whatever was left in them. After an
  accepted submission the modal stays open until the timeout fires; what is typed in that
  time is not reset by the timeout, and not by the next Apply: the form of job B opens with
  the name \<open>x\<close>.
\<close>

theorem typing_after_submit_stays_in_next_form:
  "(case run [FetchSettles sample_uuid
                (Parsed (DataObject (JArray [sample_job ''Developer'' ''Acme'',
                                             sample_job ''Designer'' ''Globex'']))),
              PressApply ((sample_job ''Developer'' ''Acme'')\<lparr>job_id := ''u''\<rparr>),
              ChangeName ''Ann'', ChangeEmail ''a@b.co'',
              ChangeContactNumber ''09171234567'', ChangeWhyHire ''Because'',
              PressSubmit, ChangeName ''x'', TimeoutFires,
              PressApply ((sample_job ''Designer'' ''Globex'')\<lparr>job_id := ''uu''\<rparr>)] mounted of
      None \<Rightarrow> False
    | Some st \<Rightarrow>
        modalVisible st \<and>
        selectedJob st = Some ((sample_job ''Designer'' ''Globex'')\<lparr>job_id := ''uu''\<rparr>) \<and>
        name st = ''x'')"
  by (simp add: mounted_def initial_def fetchJobs_begin_def fetchJobs_settle_cases
        data_jobs_def sample_uuid_def sample_job_def handleApplyPress_def
        handleSubmitApplication_def validateForm_rules sample_rules timeout_fires_def
        run_callback_def)

text \<open>
  Claim C6. Submitting runs the four rules together: \<open>validateForm\<close> answers true exactly
  when the name, the email, the contact number and the pitch all pass their rules; the
  message it stores for a field is empty exactly when that field passes, whatever the
  other fields hold; a submission is accepted (its timeout is scheduled) exactly when
  \<open>validateForm\<close> answers true; and a submission that is not accepted changes nothing but
  the \<open>errors\<close> cell, so the modal stays as it is.
\<close>

theorem validateForm_checks_all_fields:
  "fst (validateForm st) =
     (required_rule (name st) \<and> email_rule (email st) \<and>
      contactNumber_rule (contactNumber st) \<and> required_rule (whyHire st))
   \<and> (err_name (errors (snd (validateForm st))) = []) = required_rule (name st)
   \<and> (err_email (errors (snd (validateForm st))) = []) = email_rule (email st)
   \<and> (err_contactNumber (errors (snd (validateForm st))) = []) =
       contactNumber_rule (contactNumber st)
   \<and> (err_whyHire (errors (snd (validateForm st))) = []) = required_rule (whyHire st)
   \<and> (timeouts (handleSubmitApplication st) \<noteq> timeouts st) = fst (validateForm st)
   \<and> (\<not> fst (validateForm st) \<longrightarrow>
        handleSubmitApplication st = st\<lparr>errors := errors (snd (validateForm st))\<rparr>)"
proof (intro conjI impI)
  show "(timeouts (handleSubmitApplication st) \<noteq> timeouts st) = fst (validateForm st)"
    unfolding handleSubmitApplication_def validateForm_rules by simp
next
  assume "\<not> fst (validateForm st)"
  then show "handleSubmitApplication st = st\<lparr>errors := errors (snd (validateForm st))\<rparr>"
    unfolding handleSubmitApplication_def validateForm_rules by auto
qed (simp_all add: validateForm_rules)

text \<open>A form with a valid name and three invalid fields: three messages, none for the name.\<close>

theorem validateForm_checks_all_fields_witness:
  "\<not> fst (validateForm (initial\<lparr>modalVisible := True, name := ''Ann'', email := ''a@b'',
                                   contactNumber := ''0917'', whyHire := ''  ''\<rparr>))
   \<and> handleSubmitApplication (initial\<lparr>modalVisible := True, name := ''Ann'', email := ''a@b'',
                                   contactNumber := ''0917'', whyHire := ''  ''\<rparr>) =
       initial\<lparr>modalVisible := True, name := ''Ann'', email := ''a@b'',
               contactNumber := ''0917'', whyHire := ''  '',
               errors := \<lparr>err_name = [], err_email = ''Please enter a valid email address.'',
                           err_contactNumber =
                             ''Please enter a valid contact number (11 digits starting with 09).'',
                           err_whyHire = ''This field is required.''\<rparr>\<rparr>"
proof -
  let ?S = "initial\<lparr>modalVisible := True, name := ''Ann'', email := ''a@b'',
                    contactNumber := ''0917'', whyHire := ''  ''\<rparr>"
  note t = validateForm_checks_all_fields [of ?S]
  have "\<not> (required_rule (name ?S) \<and> email_rule (email ?S) \<and>
      contactNumber_rule (contactNumber ?S) \<and> required_rule (whyHire ?S))"
    by (simp add: sample_rules)
  with t [THEN conjunct1] have invalid: "\<not> fst (validateForm ?S)" by blast
  from t [THEN conjunct2, THEN conjunct2, THEN conjunct2, THEN conjunct2, THEN conjunct2,
          THEN conjunct2] invalid
  have submitted: "handleSubmitApplication ?S = ?S\<lparr>errors := errors (snd (validateForm ?S))\<rparr>"
    by (rule mp)
  have reported: "errors (snd (validateForm ?S)) =
      \<lparr>err_name = [], err_email = ''Please enter a valid email address.'',
       err_contactNumber = ''Please enter a valid contact number (11 digits starting with 09).'',
       err_whyHire = ''This field is required.''\<rparr>"
    unfolding validateForm_rules
    by (simp add: sample_rules) (simp add: required_rule_def isWhiteSpace_def)
  from invalid submitted [unfolded reported] show ?thesis by (intro conjI)
qed

text \<open>
  Claim C7. When all four fields pass their rules, submitting stores the success message,
  empties the four fields and the error messages, and schedules \<open>setModalVisible(false)\<close>
  with a delay of 2000 ms. The submission itself leaves the modal as it is: the fields are
  empty while the modal is still shown. When the scheduled callback runs the modal is
  hidden.
\<close>

text \<open>
  Claim C7. When all four fields pass their rules, submitting stores the success message,
  empties the four fields and the error messages, and schedules \<open>setModalVisible(false)\<close>
  with a delay of 2000 ms. The submission itself leaves the modal as it is: the fields are
  empty while the modal is still shown. When the scheduled callback runs the modal is
  hidden.
\<close>

theorem submit_valid_application:
  "required_rule (name st) \<and> email_rule (email st) \<and>
   contactNumber_rule (contactNumber st) \<and> required_rule (whyHire st) \<Longrightarrow>
     handleSubmitApplication st =
       st\<lparr>feedbackMessage := ''Application submitted successfully!'',
          name := [], email := [], contactNumber := [], whyHire := [],
          errors := no_errors, timeouts := timeouts st @ [(2000, HideModal)]\<rparr>
     \<and> modalVisible (handleSubmitApplication st) = modalVisible st
     \<and> last (timeouts (handleSubmitApplication st)) = (2000, HideModal)
     \<and> \<not> modalVisible (run_callback HideModal (handleSubmitApplication st))
     \<and> (timeouts st = [] \<longrightarrow>
          timeout_fires (handleSubmitApplication st) =
            st\<lparr>feedbackMessage := ''Application submitted successfully!'',
               name := [], email := [], contactNumber := [], whyHire := [],
               errors := no_errors, modalVisible := False\<rparr>)"
  unfolding handleSubmitApplication_def validateForm_rules
  by (simp add: timeout_fires_def run_callback_def)

text \<open>A valid form submitted in an open modal, and the timeout firing afterwards.\<close>

theorem submit_valid_application_witness:
  "required_rule ''Ann'' \<and> email_rule ''a@b.co'' \<and> contactNumber_rule ''09171234567'' \<and>
   required_rule ''Because''
   \<and> handleSubmitApplication
        (initial\<lparr>modalVisible := True, name := ''Ann'', email := ''a@b.co'',
                 contactNumber := ''09171234567'', whyHire := ''Because''\<rparr>) =
       initial\<lparr>modalVisible := True,
               feedbackMessage := ''Application submitted successfully!'',
               timeouts := [(2000, HideModal)]\<rparr>
   \<and> timeout_fires (handleSubmitApplication
        (initial\<lparr>modalVisible := True, name := ''Ann'', email := ''a@b.co'',
                 contactNumber := ''09171234567'', whyHire := ''Because''\<rparr>)) =
       initial\<lparr>feedbackMessage := ''Application submitted successfully!''\<rparr>"
proof -
  let ?S = "initial\<lparr>modalVisible := True, name := ''Ann'', email := ''a@b.co'',
                    contactNumber := ''09171234567'', whyHire := ''Because''\<rparr>"
  have valid: "required_rule (name ?S) \<and> email_rule (email ?S) \<and>
      contactNumber_rule (contactNumber ?S) \<and> required_rule (whyHire ?S)"
    by (simp add: sample_rules)
  have none_pending: "timeouts ?S = []" by (simp add: initial_def)
  note t = submit_valid_application [OF valid]
  from t have submitted: "handleSubmitApplication ?S =
      ?S\<lparr>feedbackMessage := ''Application submitted successfully!'',
         name := [], email := [], contactNumber := [], whyHire := [],
         errors := no_errors, timeouts := timeouts ?S @ [(2000, HideModal)]\<rparr>"
    by (rule conjunct1)
  from t none_pending have fired: "timeout_fires (handleSubmitApplication ?S) =
      ?S\<lparr>feedbackMessage := ''Application submitted successfully!'',
         name := [], email := [], contactNumber := [], whyHire := [],
         errors := no_errors, modalVisible := False\<rparr>"
    by blast
  have 1: "?S\<lparr>feedbackMessage := ''Application submitted successfully!'',
         name := [], email := [], contactNumber := [], whyHire := [],
         errors := no_errors, timeouts := timeouts ?S @ [(2000, HideModal)]\<rparr> =
       initial\<lparr>modalVisible := True,
               feedbackMessage := ''Application submitted successfully!'',
               timeouts := [(2000, HideModal)]\<rparr>"
    by (simp add: initial_def)
  have 2: "?S\<lparr>feedbackMessage := ''Application submitted successfully!'',
         name := [], email := [], contactNumber := [], whyHire := [],
         errors := no_errors, modalVisible := False\<rparr> =
       initial\<lparr>feedbackMessage := ''Application submitted successfully!''\<rparr>"
    by (simp add: initial_def)
  from submitted 1 have s': "handleSubmitApplication ?S =
       initial\<lparr>modalVisible := True,
               feedbackMessage := ''Application submitted successfully!'',
               timeouts := [(2000, HideModal)]\<rparr>"
    by (rule trans)
  from fired 2 have f': "timeout_fires (handleSubmitApplication ?S) =
       initial\<lparr>feedbackMessage := ''Application submitted successfully!''\<rparr>"
    by (rule trans)
  from sample_rules(1,4,6,2) s' f' show ?thesis by (intro conjI)
qed

text \<open>
  Claim C8. The contact number is accepted (its error message is empty) exactly when it is
  \<open>09\<close> followed by nine digits. \<open>09171234567\<close> is accepted; \<open>9171234567\<close>, \<open>091712345\<close>
  and \<open>08171234567\<close> are rejected as invalid, and the empty string as missing.
\<close>

text \<open>
  Claim C8. The contact number is accepted (its error message is empty) exactly when it is
  \<open>09\<close> followed by nine digits. \<open>09171234567\<close> is accepted; \<open>9171234567\<close>, \<open>091712345\<close>
  and \<open>08171234567\<close> are rejected as invalid, and the empty string as missing.
\<close>

theorem contactNumber_validation:
  "(err_contactNumber (errors (snd (validateForm st))) = []) = contactNumber_rule (contactNumber st)
   \<and> err_contactNumber (errors (snd (validateForm (st\<lparr>contactNumber := ''09171234567''\<rparr>)))) = []
   \<and> err_contactNumber (errors (snd (validateForm (st\<lparr>contactNumber := ''9171234567''\<rparr>)))) =
       ''Please enter a valid contact number (11 digits starting with 09).''
   \<and> err_contactNumber (errors (snd (validateForm (st\<lparr>contactNumber := ''091712345''\<rparr>)))) =
       ''Please enter a valid contact number (11 digits starting with 09).''
   \<and> err_contactNumber (errors (snd (validateForm (st\<lparr>contactNumber := ''08171234567''\<rparr>)))) =
       ''Please enter a valid contact number (11 digits starting with 09).''
   \<and> err_contactNumber (errors (snd (validateForm (st\<lparr>contactNumber := []\<rparr>)))) =
       ''Contact number is required.''"
proof (intro conjI)
  show "(err_contactNumber (errors (snd (validateForm st))) = []) =
          contactNumber_rule (contactNumber st)"
    unfolding validateForm_rules by simp
qed (simp_all add: validateForm_result contact_samples trim_samples)

text \<open>
  Claim C9. The email is accepted (its error message is empty) exactly when it is a
  non-empty local part, \<open>@\<close>, a non-empty domain, a dot and two letters or more, each part
  drawn from its character class. \<open>a@b.co\<close> is accepted; \<open>a@b\<close> and \<open>a.com\<close> are rejected
  as invalid, and the empty string as missing.
\<close>

text \<open>
  Claim C9. The email is accepted (its error message is empty) exactly when it is a
  non-empty local part, \<open>@\<close>, a non-empty domain, a dot and two letters or more, each part
  drawn from its character class. \<open>a@b.co\<close> is accepted; \<open>a@b\<close> and \<open>a.com\<close> are rejected
  as invalid, and the empty string as missing.
\<close>

theorem email_validation:
  "(err_email (errors (snd (validateForm st))) = []) = email_rule (email st)
   \<and> err_email (errors (snd (validateForm (st\<lparr>email := ''a@b.co''\<rparr>)))) = []
   \<and> err_email (errors (snd (validateForm (st\<lparr>email := ''a@b''\<rparr>)))) =
       ''Please enter a valid email address.''
   \<and> err_email (errors (snd (validateForm (st\<lparr>email := ''a.com''\<rparr>)))) =
       ''Please enter a valid email address.''
   \<and> err_email (errors (snd (validateForm (st\<lparr>email := []\<rparr>)))) = ''Email is required.''"
proof (intro conjI)
  show "(err_email (errors (snd (validateForm st))) = []) = email_rule (email st)"
    unfolding validateForm_rules by simp
qed (simp_all add: validateForm_result email_samples trim_samples)

text \<open>
  Claim C10. Starting from the empty saved list, after any sequence of toggles no two
  saved entries have the same identifier; on such a list a further toggle removes the
  entry with the job's identifier when there is one and appends the job otherwise. The
  same holds in every state a run of the mounted screen reaches.
\<close>

theorem savedJobs_never_repeat_an_id:
  "distinct (map job_id (savedJobs (foldl (\<lambda>s job. handleSaveJob job s) initial toggles)))
   \<and> savedJobs (handleSaveJob job (foldl (\<lambda>s job. handleSaveJob job s) initial toggles)) =
       (if job_id job \<in> set (map job_id (savedJobs (foldl (\<lambda>s job. handleSaveJob job s) initial toggles)))
        then filter (\<lambda>s. job_id s \<noteq> job_id job)
               (savedJobs (foldl (\<lambda>s job. handleSaveJob job s) initial toggles))
        else savedJobs (foldl (\<lambda>s job. handleSaveJob job s) initial toggles) @ [job])
   \<and> (case run events mounted of
         None \<Rightarrow> True
       | Some st \<Rightarrow> distinct (map job_id (savedJobs st)))"
proof (intro conjI)
  show d: "distinct (map job_id (savedJobs (foldl (\<lambda>s job. handleSaveJob job s) initial toggles)))"
    using initial_ids_distinct(1) by (rule toggles_keep_ids_distinct)
  then show "savedJobs (handleSaveJob job (foldl (\<lambda>s job. handleSaveJob job s) initial toggles)) =
       (if job_id job \<in> set (map job_id (savedJobs (foldl (\<lambda>s job. handleSaveJob job s) initial toggles)))
        then filter (\<lambda>s. job_id s \<noteq> job_id job)
               (savedJobs (foldl (\<lambda>s job. handleSaveJob job s) initial toggles))
        else savedJobs (foldl (\<lambda>s job. handleSaveJob job s) initial toggles) @ [job])"
    by (rule handleSaveJob_on_set)
  show "case run events mounted of None \<Rightarrow> True
        | Some st \<Rightarrow> distinct (map job_id (savedJobs st))"
    using run_keeps_ids_distinct [OF initial_ids_distinct(2)]
    by (cases "run events mounted") simp_all
qed

end
